theory Spec2Isabelle
  imports Complex_Main "HOL-Library.Sublist" "HOL-Library.Log_Nat"
begin

section \<open>Data model\<close>

text \<open>
  The services throw \<open>NotFoundException\<close> and \<open>BadRequestException\<close>, each
  carrying its message. A function that may throw returns \<open>error + 'a\<close>, with
  \<open>Inl\<close> for the exception.
\<close>

datatype error = NotFoundException string | BadRequestException string

text \<open>
  Modelled from the spec: the enum \<open>OrderStatus\<close> is declared in
  \<open>order-status.enum\<close>, which is not among the source files. The status is one of
  an enumerated set whose initial value is ``pending''; \<open>create\<close> uses the member
  \<open>PENDING\<close> only, and the members of the later transitions are kept apart by a tag.
\<close>

datatype OrderStatus = PENDING | LaterStatus nat

subsection \<open>Numbers\<close>

text \<open>
  A JavaScript number is an IEEE-754 double: a finite value, an infinity
  (\<open>Infinite True\<close> is \<open>+Infinity\<close>) or \<open>NaN\<close>. A finite double is kept as the
  rational it denotes; the sign of a zero is not kept (the sum of \<open>create\<close> starts
  at \<open>+0\<close>, and a sum of doubles is \<open>-0\<close> only when both operands are). Prices,
  quantities and amounts are doubles. Page numbers, limits, counts and timestamps
  (milliseconds) are integers.
\<close>

datatype double = Finite rat | Infinite bool | NotANumber

text \<open>
  \<open>ilog2 p q\<close> is the binary exponent of the positive rational \<open>p / q\<close>, the
  integer \<open>e\<close> with \<open>2\<^sup>e \<le> p / q < 2\<^sup>e\<^sup>+\<^sup>1\<close>.
\<close>

definition ilog2 :: "int \<Rightarrow> int \<Rightarrow> int" where
  "ilog2 p q =
     (let e = bitlen p - bitlen q
      in if (if 0 \<le> e then q * 2 ^ nat e \<le> p else q \<le> p * 2 ^ nat (- e)) then e else e - 1)"

text \<open>\<open>n / d\<close> rounded to the nearest integer, a tie to the even one (\<open>0 < d\<close>).\<close>

definition roundHalfEven :: "int \<Rightarrow> int \<Rightarrow> int" where
  "roundHalfEven n d =
     (let f = n div d; r = n mod d
      in if 2 * r < d then f else if d < 2 * r then f + 1 else if even f then f else f + 1)"

text \<open>
  The double nearest to a rational (round to nearest, ties to even): a multiple
  \<open>m * 2\<^sup>k\<close> with a 53-bit \<open>m\<close>, where \<open>k\<close> is at least \<open>-1074\<close> (the
  subnormal range); a result of magnitude \<open>2\<^sup>1\<^sup>0\<^sup>2\<^sup>4\<close> or more is an infinity.
\<close>

definition roundDouble :: "rat \<Rightarrow> double" where
  "roundDouble x =
     (case quotient_of x of
        (p, q) \<Rightarrow>
          if p = 0 then Finite 0
          else
            (let k = max (ilog2 \<bar>p\<bar> q) (- 1022) - 52;
                 m = (if 0 \<le> k then roundHalfEven p (q * 2 ^ nat k)
                      else roundHalfEven (p * 2 ^ nat (- k)) q)
             in if 1024 < bitlen \<bar>m\<bar> + k then Infinite (0 < p)
                else if 0 \<le> k then Finite (of_int (m * 2 ^ nat k))
                else Finite (of_int m / of_int (2 ^ nat (- k)))))"

text \<open>The operators \<open>*\<close> and \<open>+\<close> on numbers.\<close>

fun timesDouble :: "double \<Rightarrow> double \<Rightarrow> double" where
  "timesDouble (Finite a) (Finite b) = roundDouble (a * b)"
| "timesDouble (Finite a) (Infinite s) = (if a = 0 then NotANumber else Infinite (s = (0 < a)))"
| "timesDouble (Infinite s) (Finite b) = (if b = 0 then NotANumber else Infinite (s = (0 < b)))"
| "timesDouble (Infinite s) (Infinite t) = Infinite (s = t)"
| "timesDouble NotANumber y = NotANumber"
| "timesDouble x NotANumber = NotANumber"

fun plusDouble :: "double \<Rightarrow> double \<Rightarrow> double" where
  "plusDouble (Finite a) (Finite b) = roundDouble (a + b)"
| "plusDouble (Finite a) (Infinite s) = Infinite s"
| "plusDouble (Infinite s) (Finite b) = Infinite s"
| "plusDouble (Infinite s) (Infinite t) = (if s = t then Infinite s else NotANumber)"
| "plusDouble NotANumber y = NotANumber"
| "plusDouble x NotANumber = NotANumber"

text \<open>
  The rational a number stands for (\<open>0\<close> for an infinity and \<open>NaN\<close>), whether a
  rational is a double, and whether a number is an integer.
\<close>

fun numVal :: "double \<Rightarrow> rat" where
  "numVal (Finite x) = x"
| "numVal (Infinite s) = 0"
| "numVal NotANumber = 0"

definition isDouble :: "rat \<Rightarrow> bool" where
  "isDouble x = (roundDouble x = Finite x)"

fun isInteger :: "double \<Rightarrow> bool" where
  "isInteger (Finite x) = (of_int \<lfloor>x\<rfloor> = x)"
| "isInteger (Infinite s) = False"
| "isInteger NotANumber = False"

subsection \<open>Documents\<close>

record customer =
  fullName :: string

record menuItem =
  name :: string
  price :: double
  isEnabled :: bool

text \<open>
  The body of an \<open>updateWorkingHours\<close> request: \<open>None\<close> is a field that is
  \<open>undefined\<close>.
\<close>

record workingHoursUpdate =
  day :: string
  openingTime :: "string option"
  closingTime :: "string option"
  isActive :: "bool option"

record workingHour =
  day :: string
  openingTime :: string
  closingTime :: string
  isActive :: bool

record vendor =
  restaurantName :: string
  password :: "string option"
  isStoreOpen :: bool
  workingHours :: "workingHour list"

record orderItem =
  menuItemId :: string
  quantity :: double

record createOrderDto =
  vendorId :: string
  phoneNumber :: string
  deliveryType :: string
  location :: "string option"
  address :: "string option"
  items :: "orderItem list"
  notes' :: "string option"

text \<open>
  A stored order. \<open>isDeleted\<close> is \<open>None\<close> where the document has no such field;
  \<open>createdAt\<close> is the timestamp given at persistence time.
\<close>

record order =
  orderId :: string
  customerId :: string
  vendorId :: string
  customerName :: string
  phoneNumber :: string
  deliveryType :: string
  location :: "string option"
  address :: "string option"
  items :: "orderItem list"
  totalAmount :: double
  status :: OrderStatus
  notes' :: "string option"
  isDeleted :: "bool option"
  createdAt :: int

text \<open>
  The collections behind the services. \<open>customerService_findById\<close> is the lookup of
  the customer service, whose code belongs to the customer module: it is a parameter
  that either throws or yields the customer. \<open>menuService_findOne\<close> yields the menu
  item or \<open>null\<close> (\<open>None\<close>), as the check \<open>if (!menuItem)\<close> expects. Vendors
  and menu items are keyed by id, the order collection is kept in insertion order.
\<close>

record db =
  customerService_findById :: "string \<Rightarrow> error + customer"
  vendorModel :: "string \<rightharpoonup> vendor"
  menuService_findOne :: "string \<rightharpoonup> menuItem"
  orderModel :: "order list"

section \<open>VendorService\<close>

text \<open>\<open>.select('-password')\<close> drops the password from the returned document.\<close>

definition select_no_password :: "vendor \<Rightarrow> vendor" where
  "select_no_password v = v\<lparr>password := None\<rparr>"

definition findById :: "db \<Rightarrow> string \<Rightarrow> vendor option" where
  "findById d id' = map_option select_no_password (vendorModel d id')"

section \<open>OrderService.create\<close>

text \<open>
  The loop over \<open>createOrderDto.items\<close>, with the running \<open>totalAmount\<close> as
  accumulator: the first item that does not resolve or is disabled throws.
\<close>

fun sumItems :: "(string \<rightharpoonup> menuItem) \<Rightarrow> orderItem list \<Rightarrow> double \<Rightarrow> error + double" where
  "sumItems findOne [] totalAmount' = Inr totalAmount'"
| "sumItems findOne (item # rest) totalAmount' =
     (case findOne (menuItemId item) of
        None \<Rightarrow> Inl (NotFoundException (''Menu item '' @ menuItemId item @ '' not found''))
      | Some m \<Rightarrow>
          if \<not> isEnabled m
          then Inl (BadRequestException (''Menu item '' @ name m @ '' is not available''))
          else sumItems findOne rest (plusDouble totalAmount' (timesDouble (price m) (quantity item))))"

text \<open>
  Modelled from the spec: the order schema is not among the source files; by the data
  model, \<open>isDeleted\<close> has the default false.
\<close>

definition isDeleted_default :: "bool option" where
  "isDeleted_default = Some False"

text \<open>
  \<open>create\<close> takes the output of the identifier generator (\<open>generateId()\<close>) and the
  time of the save as parameters, and returns its result together with the collections
  after the call. \<open>save\<close> appends the document, with the schema's default for
  \<open>isDeleted\<close> and the time of the save as \<open>createdAt\<close>.
\<close>

definition create :: "string \<Rightarrow> int \<Rightarrow> db \<Rightarrow> string \<Rightarrow> createOrderDto \<Rightarrow> (error + order) \<times> db" where
  "create generatedId now d userId dto =
     (case customerService_findById d userId of
        Inl e \<Rightarrow> (Inl e, d)
      | Inr cust \<Rightarrow>
          (case findById d (createOrderDto.vendorId dto) of
             None \<Rightarrow> (Inl (NotFoundException ''Vendor not found''), d)
           | Some v \<Rightarrow>
               if \<not> isStoreOpen v
               then (Inl (BadRequestException ''Vendor store is currently closed''), d)
               else
                 (case sumItems (menuService_findOne d) (createOrderDto.items dto) (Finite 0) of
                    Inl e \<Rightarrow> (Inl e, d)
                  | Inr totalAmount' \<Rightarrow>
                      let savedOrder =
                        \<lparr> orderId = ''ST-'' @ generatedId,
                          customerId = userId,
                          vendorId = createOrderDto.vendorId dto,
                          customerName = fullName cust,
                          phoneNumber = createOrderDto.phoneNumber dto,
                          deliveryType = createOrderDto.deliveryType dto,
                          location = createOrderDto.location dto,
                          address = createOrderDto.address dto,
                          items = createOrderDto.items dto,
                          totalAmount = totalAmount',
                          status = PENDING,
                          notes' = createOrderDto.notes' dto,
                          isDeleted = isDeleted_default,
                          createdAt = now \<rparr>
                      in (Inr savedOrder, d\<lparr>orderModel := orderModel d @ [savedOrder]\<rparr>))))"

text \<open>An item passes the loop body when its id resolves to an enabled menu item.\<close>

definition itemOk :: "(string \<rightharpoonup> menuItem) \<Rightarrow> orderItem \<Rightarrow> bool" where
  "itemOk findOne item =
     (case findOne (menuItemId item) of None \<Rightarrow> False | Some m \<Rightarrow> isEnabled m)"

text \<open>
  The product \<open>menuItem.price * item.quantity\<close> of an item that resolves, and the
  running total after a list of such items: the loop without its checks.
\<close>

definition lineTotal :: "(string \<rightharpoonup> menuItem) \<Rightarrow> orderItem \<Rightarrow> double" where
  "lineTotal findOne item = timesDouble (price (the (findOne (menuItemId item)))) (quantity item)"

definition runningTotal :: "(string \<rightharpoonup> menuItem) \<Rightarrow> double \<Rightarrow> orderItem list \<Rightarrow> double" where
  "runningTotal findOne acc its = foldl (\<lambda>a item. plusDouble a (lineTotal findOne item)) acc its"

text \<open>The same product in exact arithmetic.\<close>

definition exactLineTotal :: "(string \<rightharpoonup> menuItem) \<Rightarrow> orderItem \<Rightarrow> rat" where
  "exactLineTotal findOne item =
     numVal (price (the (findOne (menuItemId item)))) * numVal (quantity item)"

section \<open>Strings\<close>

text \<open>\<open>String.prototype.toLowerCase\<close> on the ASCII letters.\<close>

definition lowerChar :: "char \<Rightarrow> char" where
  "lowerChar c =
     (case map_of (zip ''ABCDEFGHIJKLMNOPQRSTUVWXYZ'' ''abcdefghijklmnopqrstuvwxyz'') c of
        None \<Rightarrow> c
      | Some l \<Rightarrow> l)"

definition toLowerCase :: "string \<Rightarrow> string" where
  "toLowerCase s = map lowerChar s"

section \<open>OrderService: the vendor order queries\<close>

text \<open>
  \<open>Number(x)\<close> is a number or \<open>NaN\<close> (for an argument that is not numeric). An
  argument left out is \<open>None\<close>, and takes the default of the parameter list.
  Fractions and infinities are not modelled.
\<close>

datatype number = NaN | Num int

text \<open>\<open>Number(x) || d\<close>: the default \<open>d\<close> replaces the falsy numbers, \<open>NaN\<close> and \<open>0\<close>.\<close>

fun orDefault :: "number \<Rightarrow> int \<Rightarrow> int" where
  "orDefault NaN d = d"
| "orDefault (Num n) d = (if n = 0 then d else n)"

definition parsedPage :: "number option \<Rightarrow> int" where
  "parsedPage page' = max 1 (orDefault (case page' of None \<Rightarrow> Num 1 | Some p \<Rightarrow> p) 1)"

definition parsedLimit :: "number option \<Rightarrow> int" where
  "parsedLimit limit' =
     min (max 1 (orDefault (case limit' of None \<Rightarrow> Num 10 | Some l \<Rightarrow> l) 10)) 100"

definition skip :: "number option \<Rightarrow> number option \<Rightarrow> int" where
  "skip page' limit' = (parsedPage page' - 1) * parsedLimit limit'"

text \<open>
  \<open>String.prototype.trim\<close> on the ASCII white space: space, tab, line feed,
  vertical tab, form feed, carriage return. The white space outside ASCII (such as
  U+00A0) is not modelled.
\<close>

definition isWhiteSpace :: "char \<Rightarrow> bool" where
  "isWhiteSpace c = (c \<in> {CHR '' '', CHR 0x09, CHR 0x0A, CHR 0x0B, CHR 0x0C, CHR 0x0D})"

definition trim :: "string \<Rightarrow> string" where
  "trim s = rev (dropWhile isWhiteSpace (rev (dropWhile isWhiteSpace s)))"

text \<open>
  The \<open>FilterQuery\<close> the two queries build: the vendor scope, \<open>isDeleted: {$ne: b}\<close>,
  the optional range \<open>createdAt: {$gte, $lte}\<close> and the optional \<open>$or\<close> of
  \<open>$regex\<close> clauses (all with \<open>$options: 'i'\<close>), each on one field of the order.
\<close>

datatype searchField = CustomerName | PhoneNumber | OrderId

record filterQuery =
  q_vendorId :: string
  q_isDeleted_ne :: bool
  q_createdAt :: "(int \<times> int) option"
  q_or :: "(searchField \<times> string) list option"

fun fieldOf :: "searchField \<Rightarrow> order \<Rightarrow> string" where
  "fieldOf CustomerName ord = customerName ord"
| "fieldOf PhoneNumber ord = order.phoneNumber ord"
| "fieldOf OrderId ord = orderId ord"

text \<open>
  Whether a stored order satisfies a query. The database's \<open>$regex\<close> operator with
  option \<open>i\<close> is the parameter \<open>regex\<close>: \<open>regex p s\<close> says that the pattern \<open>p\<close>
  matches somewhere in \<open>s\<close>, letter case ignored.
\<close>

definition matches :: "(string \<Rightarrow> string \<Rightarrow> bool) \<Rightarrow> filterQuery \<Rightarrow> order \<Rightarrow> bool" where
  "matches regex q ord =
     (order.vendorId ord = q_vendorId q
      \<and> isDeleted ord \<noteq> Some (q_isDeleted_ne q)
      \<and> (case q_createdAt q of
            None \<Rightarrow> True
          | Some (gte, lte) \<Rightarrow> gte \<le> createdAt ord \<and> createdAt ord \<le> lte)
      \<and> (case q_or q of
            None \<Rightarrow> True
          | Some clauses \<Rightarrow> list_ex (\<lambda>(f, p). regex p (fieldOf f ord)) clauses))"

text \<open>The \<open>$or\<close> part: present when \<open>search?.trim()\<close> is a non-empty string.\<close>

definition searchClauses :: "string option \<Rightarrow> (searchField \<times> string) list option" where
  "searchClauses search =
     (case search of
        None \<Rightarrow> None
      | Some s \<Rightarrow>
          if trim s \<noteq> []
          then Some [(CustomerName, trim s), (PhoneNumber, trim s), (OrderId, trim s)]
          else None)"

text \<open>
  \<open>find(query).sort({createdAt: -1}).skip(skip).limit(parsedLimit)\<close> and
  \<open>countDocuments(query)\<close>, both on the same state of the collection. The sort is
  descending by \<open>createdAt\<close> and keeps the insertion order among equal timestamps.
\<close>

definition findSorted :: "(string \<Rightarrow> string \<Rightarrow> bool) \<Rightarrow> db \<Rightarrow> filterQuery \<Rightarrow> order list" where
  "findSorted regex d q = sort_key (\<lambda>ord. - createdAt ord) (filter (matches regex q) (orderModel d))"

definition countDocuments :: "(string \<Rightarrow> string \<Rightarrow> bool) \<Rightarrow> db \<Rightarrow> filterQuery \<Rightarrow> int" where
  "countDocuments regex d q = int (length (filter (matches regex q) (orderModel d)))"

record orderPage =
  orders :: "order list"
  total :: int
  page :: int
  limit :: int
  totalPages :: int

definition findAllVendorOrders ::
  "(string \<Rightarrow> string \<Rightarrow> bool) \<Rightarrow> db \<Rightarrow> string \<Rightarrow> number option \<Rightarrow> number option \<Rightarrow>
   int option \<Rightarrow> int option \<Rightarrow> string option \<Rightarrow> orderPage" where
  "findAllVendorOrders regex d vendorId' page' limit' startDate endDate search =
     (let query =
            \<lparr> q_vendorId = vendorId',
              q_isDeleted_ne = True,
              q_createdAt =
                (case startDate of
                   None \<Rightarrow> None
                 | Some s \<Rightarrow> (case endDate of None \<Rightarrow> None | Some e \<Rightarrow> Some (s, e))),
              q_or = searchClauses search \<rparr>;
          orders' = take (nat (parsedLimit limit'))
                      (drop (nat (skip page' limit')) (findSorted regex d query));
          total' = countDocuments regex d query
      in \<lparr> orders = orders',
           total = total',
           page = parsedPage page',
           limit = parsedLimit limit',
           totalPages = \<lceil>real_of_int total' / real_of_int (parsedLimit limit')\<rceil> \<rparr>)"

text \<open>
  The bounds of the current day, \<open>todayStart\<close> (local 00:00:00.000) and \<open>todayEnd\<close>
  (local 23:59:59.999), are read from the clock; here they are parameters.
\<close>

definition getTodaysVendorOrders ::
  "(string \<Rightarrow> string \<Rightarrow> bool) \<Rightarrow> int \<Rightarrow> int \<Rightarrow> db \<Rightarrow> string \<Rightarrow> number option \<Rightarrow> number option \<Rightarrow>
   string option \<Rightarrow> orderPage" where
  "getTodaysVendorOrders regex todayStart todayEnd d vendorId' page' limit' search =
     (let query =
            \<lparr> q_vendorId = vendorId',
              q_isDeleted_ne = True,
              q_createdAt = Some (todayStart, todayEnd),
              q_or = searchClauses search \<rparr>;
          orders' = take (nat (parsedLimit limit'))
                      (drop (nat (skip page' limit')) (findSorted regex d query));
          total' = countDocuments regex d query
      in \<lparr> orders = orders',
           total = total',
           page = parsedPage page',
           limit = parsedLimit limit',
           totalPages = \<lceil>real_of_int total' / real_of_int (parsedLimit limit')\<rceil> \<rparr>)"

text \<open>
  The filter of each mode, as a predicate on stored orders: vendor scope, not deleted,
  date range, search.
\<close>

definition allOrdersFilter ::
  "(string \<Rightarrow> string \<Rightarrow> bool) \<Rightarrow> string \<Rightarrow> int option \<Rightarrow> int option \<Rightarrow> string option \<Rightarrow> order \<Rightarrow> bool" where
  "allOrdersFilter regex vendorId' startDate endDate search ord =
     (order.vendorId ord = vendorId'
      \<and> isDeleted ord \<noteq> Some True
      \<and> (case startDate of
            None \<Rightarrow> True
          | Some s \<Rightarrow> (case endDate of None \<Rightarrow> True | Some e \<Rightarrow> s \<le> createdAt ord \<and> createdAt ord \<le> e))
      \<and> (case search of
            None \<Rightarrow> True
          | Some t \<Rightarrow>
              trim t = [] \<or> regex (trim t) (customerName ord)
              \<or> regex (trim t) (order.phoneNumber ord) \<or> regex (trim t) (orderId ord)))"

definition todaysFilter ::
  "(string \<Rightarrow> string \<Rightarrow> bool) \<Rightarrow> int \<Rightarrow> int \<Rightarrow> string \<Rightarrow> string option \<Rightarrow> order \<Rightarrow> bool" where
  "todaysFilter regex todayStart todayEnd vendorId' search ord =
     (order.vendorId ord = vendorId'
      \<and> isDeleted ord \<noteq> Some True
      \<and> todayStart \<le> createdAt ord \<and> createdAt ord \<le> todayEnd
      \<and> (case search of
            None \<Rightarrow> True
          | Some t \<Rightarrow>
              trim t = [] \<or> regex (trim t) (customerName ord)
              \<or> regex (trim t) (order.phoneNumber ord) \<or> regex (trim t) (orderId ord)))"

section \<open>The regular expressions of the search\<close>

text \<open>
  The search term goes to \<open>$regex\<close> as it is, so it is read as a pattern. The
  engine is modelled on the patterns made of ordinary characters and the wildcard
  \<open>.\<close> (any character but a line feed); with option \<open>i\<close> an ordinary character
  matches in either case. A pattern with another special character
  (the backslash and \<open>^ $ | ? * + ( ) [ ] { }\<close>) is outside this fragment:
  \<open>compilePattern\<close> gives \<open>None\<close> for it, \<open>regex_i\<close> answers \<open>False\<close>, and
  nothing below is stated about such patterns.
\<close>

datatype regexAtom = Literal char | AnyChar

definition isSpecial :: "char \<Rightarrow> bool" where
  "isSpecial c = (c \<in> set (CHR 0x5C # ''^$.|?*+()[]{}''))"

fun compilePattern :: "string \<Rightarrow> regexAtom list option" where
  "compilePattern [] = Some []"
| "compilePattern (c # cs) =
     (if c = CHR ''.'' then map_option ((#) AnyChar) (compilePattern cs)
      else if isSpecial c then None
      else map_option ((#) (Literal c)) (compilePattern cs))"

fun atomMatches :: "regexAtom \<Rightarrow> char \<Rightarrow> bool" where
  "atomMatches (Literal x) c = (lowerChar x = lowerChar c)"
| "atomMatches AnyChar c = (c \<noteq> CHR 0x0A)"

fun matchHere :: "regexAtom list \<Rightarrow> string \<Rightarrow> bool" where
  "matchHere [] s = True"
| "matchHere (a # as) [] = False"
| "matchHere (a # as) (c # cs) = (atomMatches a c \<and> matchHere as cs)"

fun matchSomewhere :: "regexAtom list \<Rightarrow> string \<Rightarrow> bool" where
  "matchSomewhere as [] = matchHere as []"
| "matchSomewhere as (c # cs) = (matchHere as (c # cs) \<or> matchSomewhere as cs)"

definition regex_i :: "string \<Rightarrow> string \<Rightarrow> bool" where
  "regex_i p s = (case compilePattern p of None \<Rightarrow> False | Some as \<Rightarrow> matchSomewhere as s)"

text \<open>
  What the search is meant to be: \<open>t\<close> occurs in \<open>s\<close> as a contiguous piece, letter
  case ignored.
\<close>

definition containsIgnoreCase :: "string \<Rightarrow> string \<Rightarrow> bool" where
  "containsIgnoreCase t s = sublist (toLowerCase t) (toLowerCase s)"

section \<open>VendorService: the operating state\<close>

text \<open>
  \<open>findByIdAndUpdate(vendorId, {isStoreOpen: b}, {new: true}).select('-password')\<close>:
  the updated document, or \<open>null\<close> when the id does not resolve.
\<close>

definition findByIdAndUpdate_isStoreOpen :: "db \<Rightarrow> string \<Rightarrow> bool \<Rightarrow> vendor option \<times> db" where
  "findByIdAndUpdate_isStoreOpen d vendorId' b =
     (case vendorModel d vendorId' of
        None \<Rightarrow> (None, d)
      | Some v \<Rightarrow>
          (Some (select_no_password (v\<lparr>isStoreOpen := b\<rparr>)),
           d\<lparr>vendorModel := (vendorModel d)(vendorId' \<mapsto> v\<lparr>isStoreOpen := b\<rparr>)\<rparr>))"

definition openStore :: "db \<Rightarrow> string \<Rightarrow> (error + vendor) \<times> db" where
  "openStore d vendorId' =
     (case findByIdAndUpdate_isStoreOpen d vendorId' True of
        (None, d') \<Rightarrow> (Inl (NotFoundException ''Vendor not found''), d')
      | (Some v, d') \<Rightarrow> (Inr v, d'))"

definition closeStore :: "db \<Rightarrow> string \<Rightarrow> (error + vendor) \<times> db" where
  "closeStore d vendorId' =
     (case findByIdAndUpdate_isStoreOpen d vendorId' False of
        (None, d') \<Rightarrow> (Inl (NotFoundException ''Vendor not found''), d')
      | (Some v, d') \<Rightarrow> (Inr v, d'))"

text \<open>\<open>Array.prototype.findIndex\<close>, with \<open>None\<close> for \<open>-1\<close>.\<close>

fun findIndex :: "('a \<Rightarrow> bool) \<Rightarrow> 'a list \<Rightarrow> nat option" where
  "findIndex P [] = None"
| "findIndex P (x # xs) = (if P x then Some 0 else map_option Suc (findIndex P xs))"

text \<open>
  The three assignments on \<open>hours[index]\<close>: the times are guarded by the truthiness of
  the string (an empty string is falsy), \<open>isActive\<close> by \<open>!== undefined\<close>.
\<close>

definition assignFields :: "workingHoursUpdate \<Rightarrow> workingHour \<Rightarrow> workingHour" where
  "assignFields update h =
     (let h1 = (case workingHoursUpdate.openingTime update of
                  None \<Rightarrow> h
                | Some t \<Rightarrow> if t \<noteq> [] then h\<lparr>openingTime := t\<rparr> else h);
          h2 = (case workingHoursUpdate.closingTime update of
                  None \<Rightarrow> h1
                | Some t \<Rightarrow> if t \<noteq> [] then h1\<lparr>closingTime := t\<rparr> else h1)
      in (case workingHoursUpdate.isActive update of
            None \<Rightarrow> h2
          | Some b \<Rightarrow> h2\<lparr>isActive := b\<rparr>))"

definition updateWorkingHours :: "db \<Rightarrow> string \<Rightarrow> workingHoursUpdate \<Rightarrow> (error + workingHour list) \<times> db" where
  "updateWorkingHours d vendorId' update =
     (case vendorModel d vendorId' of
        None \<Rightarrow> (Inl (NotFoundException ''Vendor not found''), d)
      | Some v \<Rightarrow>
          (let hours = workingHours v in
           case findIndex (\<lambda>h. toLowerCase (day h) = toLowerCase (workingHoursUpdate.day update)) hours of
             None \<Rightarrow> (Inl (BadRequestException (''Invalid day: '' @ workingHoursUpdate.day update)), d)
           | Some index \<Rightarrow>
               (let hours' = hours[index := assignFields update (hours ! index)]
                in (Inr hours',
                    d\<lparr>vendorModel := (vendorModel d)(vendorId' \<mapsto> v\<lparr>workingHours := hours'\<rparr>)\<rparr>))))"

section \<open>A sample state\<close>

text \<open>
  A small state on which the statements below are evaluated: one customer, an open
  and a closed vendor, three menu items of which the last is disabled.
\<close>

definition sampleHours :: "workingHour list" where
  "sampleHours =
     [\<lparr> day = ''Monday'', openingTime = ''09:00'', closingTime = ''17:00'', isActive = True \<rparr>,
      \<lparr> day = ''Tuesday'', openingTime = ''10:00'', closingTime = ''18:00'', isActive = False \<rparr>]"

definition openVendor :: vendor where
  "openVendor =
     \<lparr> restaurantName = ''Mama Put'', password = Some ''hash1'', isStoreOpen = True,
       workingHours = sampleHours \<rparr>"

definition closedVendor :: vendor where
  "closedVendor =
     \<lparr> restaurantName = ''Buka'', password = Some ''hash2'', isStoreOpen = False,
       workingHours = sampleHours \<rparr>"

definition sampleDb :: db where
  "sampleDb =
     \<lparr> customerService_findById =
         (\<lambda>userId. if userId = ''u1'' then Inr \<lparr> fullName = ''Ada Obi'' \<rparr>
                    else Inl (NotFoundException ''Customer not found'')),
       vendorModel = [''v1'' \<mapsto> openVendor, ''v2'' \<mapsto> closedVendor],
       menuService_findOne =
         [''m1'' \<mapsto> \<lparr> name = ''Jollof rice'', price = Finite 500, isEnabled = True \<rparr>,
          ''m2'' \<mapsto> \<lparr> name = ''Suya'', price = Finite 300, isEnabled = True \<rparr>,
          ''m3'' \<mapsto> \<lparr> name = ''Moi moi'', price = Finite 200, isEnabled = False \<rparr>],
       orderModel = [] \<rparr>"

definition sampleDto :: "string \<Rightarrow> orderItem list \<Rightarrow> createOrderDto" where
  "sampleDto vendorId' its =
     \<lparr> createOrderDto.vendorId = vendorId',
       createOrderDto.phoneNumber = ''08012345678'',
       createOrderDto.deliveryType = ''pickup'',
       createOrderDto.location = None,
       createOrderDto.address = None,
       createOrderDto.items = its,
       createOrderDto.notes' = None \<rparr>"

text \<open>
  A catalogue whose prices leave the range of exact arithmetic: \<open>2\<^sup>5\<^sup>3\<close> and \<open>1\<close>,
  and the doubles written \<open>0.1\<close> and \<open>0.2\<close>.
\<close>

definition priceyDb :: db where
  "priceyDb =
     sampleDb\<lparr>menuService_findOne :=
       [''m4'' \<mapsto> \<lparr> name = ''Banquet'', price = Finite 9007199254740992, isEnabled = True \<rparr>,
        ''m5'' \<mapsto> \<lparr> name = ''Sachet water'', price = Finite 1, isEnabled = True \<rparr>,
        ''m6'' \<mapsto> \<lparr> name = ''Chin chin'',
                   price = Finite (3602879701896397 / 36028797018963968), isEnabled = True \<rparr>,
        ''m7'' \<mapsto> \<lparr> name = ''Puff puff'',
                   price = Finite (3602879701896397 / 18014398509481984), isEnabled = True \<rparr>]\<rparr>"

text \<open>
  Four stored orders: two live orders of vendor \<open>v1\<close> (one without an
  \<open>isDeleted\<close> field), a deleted order of \<open>v1\<close>, and an order of \<open>v2\<close>.
\<close>

definition sampleOrder :: "string \<Rightarrow> string \<Rightarrow> string \<Rightarrow> string \<Rightarrow> bool option \<Rightarrow> int \<Rightarrow> order" where
  "sampleOrder oid vid cname phone deleted created =
     \<lparr> orderId = oid, customerId = ''u1'', vendorId = vid, customerName = cname,
       phoneNumber = phone, deliveryType = ''pickup'', location = None, address = None,
       items = [\<lparr>menuItemId = ''m1'', quantity = Finite 1\<rparr>], totalAmount = Finite 500, status = PENDING,
       notes' = None, isDeleted = deleted, createdAt = created \<rparr>"

definition order1 :: order where
  "order1 = sampleOrder ''ST-aaaaaaaaaaa1'' ''v1'' ''Ada Obi'' ''08012345678'' (Some False) 100"

definition order2 :: order where
  "order2 = sampleOrder ''ST-bbbbbbbbbbb2'' ''v1'' ''Bola Ade'' ''07098765432'' None 200"

definition order3 :: order where
  "order3 = sampleOrder ''ST-ccccccccccc3'' ''v1'' ''Chidi Eze'' ''09011112222'' (Some True) 300"

definition order4 :: order where
  "order4 = sampleOrder ''ST-ddddddddddd4'' ''v2'' ''Dayo Ojo'' ''08133334444'' (Some False) 250"

definition queryDb :: db where
  "queryDb = sampleDb\<lparr>orderModel := [order1, order2, order3, order4]\<rparr>"

section \<open>Double arithmetic on integers\<close>

lemma roundHalfEven_one: "roundHalfEven n 1 = n"
  by (simp add: roundHalfEven_def)

lemma bitlen_le_53:
  assumes "0 < n" and "n < 2 ^ 53"
  shows "1 \<le> bitlen n \<and> bitlen n \<le> 53"
proof -
  from bitlen_bounds [OF assms(1)] have lo: "2 ^ nat (bitlen n - 1) \<le> n" by simp
  have pos: "1 \<le> bitlen n"
    using assms(1) bitlen_eq_zero_iff [of n] bitlen_nonneg [of n] by linarith
  from lo assms(2) have "(2::int) ^ nat (bitlen n - 1) < 2 ^ 53" by linarith
  then have "nat (bitlen n - 1) < 53" by (simp only: power_strict_increasing_iff one_less_numeral_iff semiring_norm)
  with pos show ?thesis by linarith
qed

lemma ilog2_int:
  assumes "0 < n"
  shows "ilog2 n 1 = bitlen n - 1"
proof -
  have one: "bitlen 1 = 1" by (simp add: compute_bitlen)
  have pos: "1 \<le> bitlen n"
    using assms bitlen_eq_zero_iff [of n] bitlen_nonneg [of n] by linarith
  from bitlen_bounds [OF assms] have "2 ^ nat (bitlen n - 1) \<le> n" by simp
  with pos show ?thesis by (simp add: ilog2_def one Let_def)
qed

lemma roundDouble_int:
  assumes "\<bar>n\<bar> < 2 ^ 53"
  shows "roundDouble (of_int n) = Finite (of_int n)"
proof (cases "n = 0")
  case True
  then show ?thesis by (simp add: roundDouble_def)
next
  case False
  then have apos: "0 < \<bar>n\<bar>" by simp
  define j where "j = nat (53 - bitlen \<bar>n\<bar>)"
  from bitlen_le_53 [OF apos assms] have b: "1 \<le> bitlen \<bar>n\<bar>" "bitlen \<bar>n\<bar> \<le> 53" by simp_all
  have k: "max (ilog2 \<bar>n\<bar> 1) (- 1022) - 52 = - int j"
    using b by (simp add: ilog2_int [OF apos] j_def)
  have bl: "bitlen \<bar>n * 2 ^ j\<bar> = bitlen \<bar>n\<bar> + int j"
    using bitlen_pow2 [OF apos, of j] by (simp add: abs_mult)
  have frac: "(of_int (n * 2 ^ j) :: rat) / of_int (2 ^ j) = of_int n"
    by simp
  show ?thesis
  proof (cases "j = 0")
    case True
    with False k b show ?thesis
      by (simp add: roundDouble_def Let_def roundHalfEven_one)
  next
    case jpos: False
    then have neg: "\<not> 0 \<le> - int j" by simp
    have "1024 < bitlen \<bar>n * 2 ^ j\<bar> + - int j \<longleftrightarrow> False"
      using bl b by simp
    with False k neg frac show ?thesis
      by (simp add: roundDouble_def Let_def roundHalfEven_one)
  qed
qed

lemma roundDouble_exact:
  assumes "x \<in> \<int>" and "\<bar>x\<bar> < 2 ^ 53"
  shows "roundDouble x = Finite x"
proof -
  from assms(1) obtain n where n: "x = of_int n" by (auto elim: Ints_cases)
  with assms(2) have "(of_int \<bar>n\<bar> :: rat) < of_int (2 ^ 53)" by simp
  then have "\<bar>n\<bar> < 2 ^ 53" by (simp only: of_int_less_iff)
  from roundDouble_int [OF this] n show ?thesis by simp
qed

lemma isInteger_Ints: "isInteger d \<Longrightarrow> \<exists>x \<in> \<int>. d = Finite x"
proof (cases d)
  case (Finite x)
  assume "isInteger d"
  with Finite have "of_int \<lfloor>x\<rfloor> = x" by simp
  then have "x \<in> \<int>" by (metis Ints_of_int)
  with Finite show ?thesis by simp
qed simp_all

section \<open>Properties of the item loop\<close>

lemma sumItems_all_ok:
  "list_all (itemOk findOne) its \<Longrightarrow>
   sumItems findOne its acc = Inr (runningTotal findOne acc its)"
  by (induction its arbitrary: acc)
     (auto simp: itemOk_def lineTotal_def runningTotal_def split: option.splits)

lemma sumItems_Inr_all_ok:
  "sumItems findOne its acc = Inr t \<Longrightarrow> list_all (itemOk findOne) its"
  by (induction its arbitrary: acc)
     (auto simp: itemOk_def split: option.splits if_splits)

lemma sumItems_first_bad:
  "list_all (itemOk findOne) pre \<Longrightarrow>
   sumItems findOne (pre @ item # post) acc =
     (case findOne (menuItemId item) of
        None \<Rightarrow> Inl (NotFoundException (''Menu item '' @ menuItemId item @ '' not found''))
      | Some m \<Rightarrow>
          if \<not> isEnabled m
          then Inl (BadRequestException (''Menu item '' @ name m @ '' is not available''))
          else sumItems findOne post
                 (plusDouble (runningTotal findOne acc pre) (timesDouble (price m) (quantity item))))"
proof (induction pre arbitrary: acc)
  case Nil
  show ?case by (simp add: runningTotal_def split: option.splits)
next
  case (Cons p pre)
  from Cons.prems have ok: "itemOk findOne p" and rest: "list_all (itemOk findOne) pre"
    by simp_all
  from ok obtain m where m: "findOne (menuItemId p) = Some m" "isEnabled m"
    by (auto simp: itemOk_def split: option.splits)
  show ?case
    using Cons.IH [OF rest, of "plusDouble acc (timesDouble (price m) (quantity p))"] m
    by (simp add: lineTotal_def runningTotal_def split: option.splits)
qed

lemma runningTotal_exact:
  assumes "\<forall>item \<in> set its. isInteger (price (the (findOne (menuItemId item)))) \<and> isInteger (quantity item)"
    and "a \<in> \<int>"
    and "\<bar>a\<bar> + (\<Sum>item\<leftarrow>its. \<bar>exactLineTotal findOne item\<bar>) < 2 ^ 53"
  shows "runningTotal findOne (Finite a) its = Finite (a + (\<Sum>item\<leftarrow>its. exactLineTotal findOne item))"
  using assms
proof (induction its arbitrary: a)
  case Nil
  then show ?case by (simp add: runningTotal_def)
next
  case (Cons item its)
  from Cons.prems(1) have "isInteger (price (the (findOne (menuItemId item))))" "isInteger (quantity item)"
    by simp_all
  then obtain x y where x: "x \<in> \<int>" "price (the (findOne (menuItemId item))) = Finite x"
    and y: "y \<in> \<int>" "quantity item = Finite y"
    by (blast dest: isInteger_Ints)
  have e: "exactLineTotal findOne item = x * y"
    by (simp add: exactLineTotal_def x(2) y(2))
  have rest_nonneg: "0 \<le> (\<Sum>i\<leftarrow>its. \<bar>exactLineTotal findOne i\<bar>)"
    by (rule sum_list_nonneg) auto
  from Cons.prems(3) have bound: "\<bar>a\<bar> + \<bar>x * y\<bar> + (\<Sum>i\<leftarrow>its. \<bar>exactLineTotal findOne i\<bar>) < 2 ^ 53"
    by (simp add: e)
  have xy: "x * y \<in> \<int>" using x(1) y(1) by (rule Ints_mult)
  have "\<bar>x * y\<bar> < 2 ^ 53" using bound rest_nonneg by linarith
  from roundDouble_exact [OF xy this]
  have line: "lineTotal findOne item = Finite (x * y)"
    by (simp add: lineTotal_def x(2) y(2))
  have axy: "a + x * y \<in> \<int>" using Cons.prems(2) xy by (rule Ints_add)
  have small: "\<bar>a + x * y\<bar> < 2 ^ 53" using bound rest_nonneg by linarith
  from roundDouble_exact [OF axy small]
  have step: "plusDouble (Finite a) (lineTotal findOne item) = Finite (a + x * y)"
    by (simp add: line)
  have next_bound: "\<bar>a + x * y\<bar> + (\<Sum>i\<leftarrow>its. \<bar>exactLineTotal findOne i\<bar>) < 2 ^ 53"
    using bound by linarith
  from Cons.prems(1) have rest_int:
    "\<forall>i \<in> set its. isInteger (price (the (findOne (menuItemId i)))) \<and> isInteger (quantity i)"
    by simp
  from Cons.IH [OF rest_int axy next_bound]
  have "runningTotal findOne (Finite (a + x * y)) its
          = Finite (a + x * y + (\<Sum>i\<leftarrow>its. exactLineTotal findOne i))" .
  then show ?case
    by (simp add: runningTotal_def step e add.assoc)
qed

section \<open>OrderService.create: validation, total and persistence\<close>

lemma findById_simps:
  "vendorModel d i = None \<Longrightarrow> findById d i = None"
  "vendorModel d i = Some v \<Longrightarrow> findById d i = Some (select_no_password v)"
  by (simp_all add: findById_def)

lemma isStoreOpen_select: "isStoreOpen (select_no_password v) = isStoreOpen v"
  by (simp add: select_no_password_def)

lemma all_ok_iff:
  "list_all (itemOk findOne) its \<longleftrightarrow>
   (\<forall>item \<in> set its. \<exists>m. findOne (menuItemId item) = Some m \<and> isEnabled m)"
  by (auto simp: list_all_iff itemOk_def split: option.splits)

lemma create_success:
  assumes "customerService_findById d userId = Inr cust"
    and "vendorModel d (createOrderDto.vendorId dto) = Some v"
    and "isStoreOpen v"
    and "sumItems (menuService_findOne d) (createOrderDto.items dto) (Finite 0) = Inr t"
  shows "create g now d userId dto =
    (Inr \<lparr> orderId = ''ST-'' @ g, customerId = userId,
          vendorId = createOrderDto.vendorId dto, customerName = fullName cust,
          phoneNumber = createOrderDto.phoneNumber dto,
          deliveryType = createOrderDto.deliveryType dto,
          location = createOrderDto.location dto, address = createOrderDto.address dto,
          items = createOrderDto.items dto, totalAmount = t, status = PENDING,
          notes' = createOrderDto.notes' dto, isDeleted = isDeleted_default, createdAt = now \<rparr>,
     d\<lparr>orderModel := orderModel d @
       [\<lparr> orderId = ''ST-'' @ g, customerId = userId,
          vendorId = createOrderDto.vendorId dto, customerName = fullName cust,
          phoneNumber = createOrderDto.phoneNumber dto,
          deliveryType = createOrderDto.deliveryType dto,
          location = createOrderDto.location dto, address = createOrderDto.address dto,
          items = createOrderDto.items dto, totalAmount = t, status = PENDING,
          notes' = createOrderDto.notes' dto, isDeleted = isDeleted_default, createdAt = now \<rparr>]\<rparr>)"
  using assms by (simp add: create_def findById_simps isStoreOpen_select Let_def)

lemma create_item_error:
  assumes "customerService_findById d userId = Inr cust"
    and "vendorModel d (createOrderDto.vendorId dto) = Some v"
    and "isStoreOpen v"
    and "sumItems (menuService_findOne d) (createOrderDto.items dto) (Finite 0) = Inl e"
  shows "create g now d userId dto = (Inl e, d)"
  using assms by (simp add: create_def findById_simps isStoreOpen_select)

text \<open>
  Claim C1, as the code has it. When the customer lookup returns, the vendor resolves
  and is open, and every submitted item resolves to an enabled menu item, \<open>create\<close>
  appends one order to the collection and returns it, with \<open>status\<close> \<open>PENDING\<close>. Its
  \<open>totalAmount\<close> is the sum of \<open>menuItem.price * item.quantity\<close> accumulated in
  submission order from \<open>0\<close> in double arithmetic, each product and each partial sum
  rounded to the nearest double, at the prices the catalogue holds during the call.
  When all prices and quantities are integers and the magnitudes of the exact products
  add up to less than \<open>2\<^sup>5\<^sup>3\<close>, no rounding takes place and \<open>totalAmount\<close> is the
  exact sum.
\<close>
theorem create_totalAmount:
  assumes "customerService_findById d userId = Inr cust"
    and "vendorModel d (createOrderDto.vendorId dto) = Some v"
    and "isStoreOpen v"
    and "\<forall>item \<in> set (createOrderDto.items dto).
           \<exists>m. menuService_findOne d (menuItemId item) = Some m \<and> isEnabled m"
  shows "\<exists>ord. create g now d userId dto = (Inr ord, d\<lparr>orderModel := orderModel d @ [ord]\<rparr>)
           \<and> status ord = PENDING
           \<and> totalAmount ord =
               foldl (\<lambda>acc item. plusDouble acc
                        (timesDouble (price (the (menuService_findOne d (menuItemId item)))) (quantity item)))
                 (Finite 0) (createOrderDto.items dto)
           \<and> ((\<forall>item \<in> set (createOrderDto.items dto).
                  isInteger (price (the (menuService_findOne d (menuItemId item))))
                  \<and> isInteger (quantity item))
               \<and> (\<Sum>item\<leftarrow>createOrderDto.items dto.
                     \<bar>numVal (price (the (menuService_findOne d (menuItemId item)))) * numVal (quantity item)\<bar>)
                   < 2 ^ 53
               \<longrightarrow> totalAmount ord =
                     Finite (\<Sum>item\<leftarrow>createOrderDto.items dto.
                        numVal (price (the (menuService_findOne d (menuItemId item)))) * numVal (quantity item)))"
proof -
  let ?fo = "menuService_findOne d" and ?its = "createOrderDto.items dto"
  from assms(4) have ok: "list_all (itemOk ?fo) ?its"
    by (simp add: all_ok_iff)
  have s: "sumItems ?fo ?its (Finite 0) = Inr (runningTotal ?fo (Finite 0) ?its)"
    by (rule sumItems_all_ok [OF ok])
  have exact: "runningTotal ?fo (Finite 0) ?its = Finite (\<Sum>item\<leftarrow>?its. exactLineTotal ?fo item)"
    if "\<forall>item \<in> set ?its. isInteger (price (the (?fo (menuItemId item)))) \<and> isInteger (quantity item)"
      and "(\<Sum>item\<leftarrow>?its. \<bar>exactLineTotal ?fo item\<bar>) < 2 ^ 53"
    using runningTotal_exact [OF that(1), of 0] that(2) by simp
  from create_success [OF assms(1-3) s] exact show ?thesis
    by (simp add: runningTotal_def lineTotal_def exactLineTotal_def)
qed

text \<open>
  Claim C1 says that \<open>totalAmount\<close> is the exact sum. With the prices \<open>2\<^sup>5\<^sup>3\<close> and
  \<open>1\<close>, each ordered once, the code stores \<open>9007199254740992\<close>, not the sum
  \<open>9007199254740993\<close>, which is not a double; with the prices \<open>0.1\<close> and \<open>0.2\<close> it
  stores \<open>0.30000000000000004\<close>, the double next above the sum of the two prices. All
  four prices are doubles.
\<close>
theorem create_totalAmount_rounds_counterexample:
  "totalAmount (projr (fst (create ''a1B2c3D4e5F6'' 1000 priceyDb ''u1''
      (sampleDto ''v1'' [\<lparr>menuItemId = ''m4'', quantity = Finite 1\<rparr>,
                         \<lparr>menuItemId = ''m5'', quantity = Finite 1\<rparr>]))))
     = Finite 9007199254740992
   \<and> (9007199254740992 :: rat) * 1 + 1 * 1 \<noteq> 9007199254740992
   \<and> totalAmount (projr (fst (create ''a1B2c3D4e5F6'' 1000 priceyDb ''u1''
      (sampleDto ''v1'' [\<lparr>menuItemId = ''m6'', quantity = Finite 1\<rparr>,
                         \<lparr>menuItemId = ''m7'', quantity = Finite 1\<rparr>]))))
     = Finite (5404319552844596 / 18014398509481984)
   \<and> (3602879701896397 / 36028797018963968 :: rat) * 1 + 3602879701896397 / 18014398509481984 * 1
       \<noteq> 5404319552844596 / 18014398509481984
   \<and> isDouble 9007199254740992 \<and> isDouble 1
   \<and> isDouble (3602879701896397 / 36028797018963968)
   \<and> isDouble (3602879701896397 / 18014398509481984)"
proof -
  have c: "customerService_findById priceyDb ''u1'' = Inr \<lparr> fullName = ''Ada Obi'' \<rparr>"
    and v: "vendorModel priceyDb ''v1'' = Some openVendor" and o: "isStoreOpen openVendor"
    by (simp_all add: priceyDb_def sampleDb_def openVendor_def)
  have s1: "sumItems (menuService_findOne priceyDb)
              [\<lparr>menuItemId = ''m4'', quantity = Finite 1\<rparr>, \<lparr>menuItemId = ''m5'', quantity = Finite 1\<rparr>]
              (Finite 0) = Inr (Finite 9007199254740992)"
    by code_simp
  have s2: "sumItems (menuService_findOne priceyDb)
              [\<lparr>menuItemId = ''m6'', quantity = Finite 1\<rparr>, \<lparr>menuItemId = ''m7'', quantity = Finite 1\<rparr>]
              (Finite 0) = Inr (Finite (5404319552844596 / 18014398509481984))"
    by code_simp
  have d: "isDouble 9007199254740992" "isDouble 1"
    "isDouble (3602879701896397 / 36028797018963968)"
    "isDouble (3602879701896397 / 18014398509481984)"
    by code_simp+
  have t1: "totalAmount (projr (fst (create ''a1B2c3D4e5F6'' 1000 priceyDb ''u1''
      (sampleDto ''v1'' [\<lparr>menuItemId = ''m4'', quantity = Finite 1\<rparr>,
                         \<lparr>menuItemId = ''m5'', quantity = Finite 1\<rparr>]))))
     = Finite 9007199254740992"
    using create_success [where d = priceyDb and userId = "''u1''" and v = openVendor
        and dto = "sampleDto ''v1'' [\<lparr>menuItemId = ''m4'', quantity = Finite 1\<rparr>,
                         \<lparr>menuItemId = ''m5'', quantity = Finite 1\<rparr>]"
        and g = "''a1B2c3D4e5F6''" and now = 1000 and t = "Finite 9007199254740992"]
      c v o s1
    by (simp add: sampleDto_def)
  have t2: "totalAmount (projr (fst (create ''a1B2c3D4e5F6'' 1000 priceyDb ''u1''
      (sampleDto ''v1'' [\<lparr>menuItemId = ''m6'', quantity = Finite 1\<rparr>,
                         \<lparr>menuItemId = ''m7'', quantity = Finite 1\<rparr>]))))
     = Finite (5404319552844596 / 18014398509481984)"
    using create_success [where d = priceyDb and userId = "''u1''" and v = openVendor
        and dto = "sampleDto ''v1'' [\<lparr>menuItemId = ''m6'', quantity = Finite 1\<rparr>,
                         \<lparr>menuItemId = ''m7'', quantity = Finite 1\<rparr>]"
        and g = "''a1B2c3D4e5F6''" and now = 1000 and t = "Finite (5404319552844596 / 18014398509481984)"]
      c v o s2
    by (simp add: sampleDto_def)
  have n1: "(9007199254740992 :: rat) * 1 + 1 * 1 \<noteq> 9007199254740992" by simp
  have n2: "(3602879701896397 / 36028797018963968 :: rat) * 1 + 3602879701896397 / 18014398509481984 * 1
       \<noteq> 5404319552844596 / 18014398509481984" by simp
  from t1 n1 t2 n2 d show ?thesis by (intro conjI)
qed

text \<open>
  Claim C10. \<open>create\<close> has no check of its own that the item list is non-empty: with
  the customer and an open vendor resolved, an empty list passes the loop, and an order
  with \<open>totalAmount = 0\<close> and \<open>status = PENDING\<close> is persisted.
\<close>
theorem create_empty_items:
  assumes "customerService_findById d userId = Inr cust"
    and "vendorModel d (createOrderDto.vendorId dto) = Some v"
    and "isStoreOpen v"
    and "createOrderDto.items dto = []"
  shows "\<exists>ord. create g now d userId dto = (Inr ord, d\<lparr>orderModel := orderModel d @ [ord]\<rparr>)
           \<and> totalAmount ord = Finite 0 \<and> status ord = PENDING \<and> order.items ord = []"
proof -
  have "sumItems (menuService_findOne d) (createOrderDto.items dto) (Finite 0) = Inr (Finite 0)"
    using assms(4) by simp
  from create_success [OF assms(1-3) this] show ?thesis using assms(4) by simp
qed

text \<open>
  Claim C3. Once the customer lookup has returned: a vendor id that does not resolve
  makes \<open>create\<close> throw \<open>NotFoundException\<close>; a resolved vendor whose store is
  closed makes it throw \<open>BadRequestException\<close> ``Vendor store is currently closed'',
  whatever the submitted items are (valid, unknown or disabled), so no item error is
  reported for a closed store. Nothing is persisted in either case.
\<close>
theorem create_vendor_checks:
  assumes "customerService_findById d userId = Inr cust"
  shows "(vendorModel d (createOrderDto.vendorId dto) = None \<longrightarrow>
            create g now d userId dto = (Inl (NotFoundException ''Vendor not found''), d))
       \<and> (\<forall>v its. vendorModel d (createOrderDto.vendorId dto) = Some v \<and> \<not> isStoreOpen v \<longrightarrow>
            create g now d userId (dto\<lparr>createOrderDto.items := its\<rparr>) =
              (Inl (BadRequestException ''Vendor store is currently closed''), d))"
  using assms by (simp add: create_def findById_simps isStoreOpen_select)

text \<open>
  Claim C4. With the customer and an open vendor resolved, the items are checked in
  submission order and the first offending one decides the error: if all items before
  \<open>item\<close> pass and \<open>item\<close> does not resolve, the error is \<open>NotFoundException\<close>
  naming its id; if it resolves to a disabled menu item, the error is
  \<open>BadRequestException\<close> naming the menu item's \<open>name\<close>. The items after it
  (\<open>post\<close>) have no influence.
\<close>
theorem create_first_offending_item:
  assumes "customerService_findById d userId = Inr cust"
    and "vendorModel d (createOrderDto.vendorId dto) = Some v"
    and "isStoreOpen v"
    and "createOrderDto.items dto = pre @ item # post"
    and "\<forall>p \<in> set pre. \<exists>m. menuService_findOne d (menuItemId p) = Some m \<and> isEnabled m"
  shows "(menuService_findOne d (menuItemId item) = None \<longrightarrow>
            create g now d userId dto =
              (Inl (NotFoundException (''Menu item '' @ menuItemId item @ '' not found'')), d))
       \<and> (\<forall>m. menuService_findOne d (menuItemId item) = Some m \<and> \<not> isEnabled m \<longrightarrow>
            create g now d userId dto =
              (Inl (BadRequestException (''Menu item '' @ name m @ '' is not available'')), d))"
proof -
  from assms(5) have ok: "list_all (itemOk (menuService_findOne d)) pre"
    by (simp add: all_ok_iff)
  note fb = sumItems_first_bad [OF ok, of item post "Finite 0"]
  show ?thesis
  proof (intro conjI impI allI)
    assume "menuService_findOne d (menuItemId item) = None"
    with fb have "sumItems (menuService_findOne d) (createOrderDto.items dto) (Finite 0) =
        Inl (NotFoundException (''Menu item '' @ menuItemId item @ '' not found''))"
      using assms(4) by simp
    from create_item_error [OF assms(1-3) this]
    show "create g now d userId dto =
              (Inl (NotFoundException (''Menu item '' @ menuItemId item @ '' not found'')), d)" .
  next
    fix m assume "menuService_findOne d (menuItemId item) = Some m \<and> \<not> isEnabled m"
    with fb have "sumItems (menuService_findOne d) (createOrderDto.items dto) (Finite 0) =
        Inl (BadRequestException (''Menu item '' @ name m @ '' is not available''))"
      using assms(4) by simp
    from create_item_error [OF assms(1-3) this]
    show "create g now d userId dto =
              (Inl (BadRequestException (''Menu item '' @ name m @ '' is not available'')), d)" .
  qed
qed

text \<open>
  Claim C5. \<open>create\<close> either fails and leaves the whole state unchanged, or succeeds
  and appends exactly the returned order to the order collection, changing nothing
  else; and it succeeds only if the customer lookup returned, the vendor resolved with
  its store open, and every submitted item resolved to an enabled menu item.
\<close>
theorem create_atomic:
  "case create g now d userId dto of
     (Inl e, d') \<Rightarrow> d' = d
   | (Inr ord, d') \<Rightarrow>
       d' = d\<lparr>orderModel := orderModel d @ [ord]\<rparr>
       \<and> (\<exists>cust. customerService_findById d userId = Inr cust)
       \<and> (\<exists>v. vendorModel d (createOrderDto.vendorId dto) = Some v \<and> isStoreOpen v)
       \<and> (\<forall>item \<in> set (createOrderDto.items dto).
            \<exists>m. menuService_findOne d (menuItemId item) = Some m \<and> isEnabled m)"
  by (auto simp: create_def findById_def isStoreOpen_select Let_def all_ok_iff [symmetric]
           dest: sumItems_Inr_all_ok split: sum.splits option.splits if_splits)

lemma sample_simps:
  "customerService_findById sampleDb ''u1'' = Inr \<lparr> fullName = ''Ada Obi'' \<rparr>"
  "vendorModel sampleDb ''v1'' = Some openVendor"
  "vendorModel sampleDb ''v2'' = Some closedVendor"
  "vendorModel sampleDb ''v9'' = None"
  "isStoreOpen openVendor"
  "\<not> isStoreOpen closedVendor"
  "menuService_findOne sampleDb ''m1'' = Some \<lparr> name = ''Jollof rice'', price = Finite 500, isEnabled = True \<rparr>"
  "menuService_findOne sampleDb ''m2'' = Some \<lparr> name = ''Suya'', price = Finite 300, isEnabled = True \<rparr>"
  "menuService_findOne sampleDb ''m3'' = Some \<lparr> name = ''Moi moi'', price = Finite 200, isEnabled = False \<rparr>"
  "menuService_findOne sampleDb ''m9'' = None"
  "createOrderDto.vendorId (sampleDto w its) = w"
  "createOrderDto.items (sampleDto w its) = its"
  by (simp_all add: sampleDb_def sampleDto_def openVendor_def closedVendor_def)

theorem create_totalAmount_witness:
  "\<exists>ord. create ''a1B2c3D4e5F6'' 1000 sampleDb ''u1''
            (sampleDto ''v1'' [\<lparr>menuItemId = ''m1'', quantity = Finite 2\<rparr>, \<lparr>menuItemId = ''m2'', quantity = Finite 1\<rparr>])
          = (Inr ord, sampleDb\<lparr>orderModel := orderModel sampleDb @ [ord]\<rparr>)
        \<and> totalAmount ord = Finite 1300 \<and> status ord = PENDING"
  using create_totalAmount [where d = sampleDb and userId = "''u1''" and v = openVendor
      and dto = "sampleDto ''v1'' [\<lparr>menuItemId = ''m1'', quantity = Finite 2\<rparr>, \<lparr>menuItemId = ''m2'', quantity = Finite 1\<rparr>]"
      and g = "''a1B2c3D4e5F6''" and now = 1000]
  by (simp add: sample_simps) blast

theorem create_empty_items_witness:
  "\<exists>ord. create ''a1B2c3D4e5F6'' 1000 sampleDb ''u1'' (sampleDto ''v1'' [])
          = (Inr ord, sampleDb\<lparr>orderModel := orderModel sampleDb @ [ord]\<rparr>)
        \<and> totalAmount ord = Finite 0 \<and> status ord = PENDING \<and> order.items ord = []"
  using create_empty_items [where d = sampleDb and userId = "''u1''" and v = openVendor
      and dto = "sampleDto ''v1'' []" and g = "''a1B2c3D4e5F6''" and now = 1000]
  by (simp add: sample_simps)

theorem create_vendor_checks_witness:
  "create ''a1B2c3D4e5F6'' 1000 sampleDb ''u1'' (sampleDto ''v9'' [\<lparr>menuItemId = ''m1'', quantity = Finite 2\<rparr>])
     = (Inl (NotFoundException ''Vendor not found''), sampleDb)
   \<and> create ''a1B2c3D4e5F6'' 1000 sampleDb ''u1'' (sampleDto ''v2'' [\<lparr>menuItemId = ''m9'', quantity = Finite 0\<rparr>])
     = (Inl (BadRequestException ''Vendor store is currently closed''), sampleDb)"
proof -
  have c: "customerService_findById sampleDb ''u1'' = Inr \<lparr> fullName = ''Ada Obi'' \<rparr>"
    by (simp add: sample_simps)
  have upd: "(sampleDto ''v2'' [])\<lparr>createOrderDto.items := [\<lparr>menuItemId = ''m9'', quantity = Finite 0\<rparr>]\<rparr>
               = sampleDto ''v2'' [\<lparr>menuItemId = ''m9'', quantity = Finite 0\<rparr>]"
    by (simp add: sampleDto_def)
  from create_vendor_checks [OF c, where dto = "sampleDto ''v9'' [\<lparr>menuItemId = ''m1'', quantity = Finite 2\<rparr>]"
         and g = "''a1B2c3D4e5F6''" and now = 1000]
  have a: "create ''a1B2c3D4e5F6'' 1000 sampleDb ''u1'' (sampleDto ''v9'' [\<lparr>menuItemId = ''m1'', quantity = Finite 2\<rparr>])
     = (Inl (NotFoundException ''Vendor not found''), sampleDb)"
    by (simp add: sample_simps)
  from create_vendor_checks [OF c, where dto = "sampleDto ''v2'' []"
         and g = "''a1B2c3D4e5F6''" and now = 1000]
  have "create ''a1B2c3D4e5F6'' 1000 sampleDb ''u1''
          ((sampleDto ''v2'' [])\<lparr>createOrderDto.items := [\<lparr>menuItemId = ''m9'', quantity = Finite 0\<rparr>]\<rparr>)
     = (Inl (BadRequestException ''Vendor store is currently closed''), sampleDb)"
    by (simp add: sample_simps)
  with a upd show ?thesis by simp
qed

theorem create_first_offending_item_witness:
  "create ''a1B2c3D4e5F6'' 1000 sampleDb ''u1''
     (sampleDto ''v1'' [\<lparr>menuItemId = ''m1'', quantity = Finite 2\<rparr>, \<lparr>menuItemId = ''m9'', quantity = Finite 1\<rparr>,
                        \<lparr>menuItemId = ''m3'', quantity = Finite 1\<rparr>])
     = (Inl (NotFoundException ''Menu item m9 not found''), sampleDb)
   \<and> create ''a1B2c3D4e5F6'' 1000 sampleDb ''u1''
     (sampleDto ''v1'' [\<lparr>menuItemId = ''m1'', quantity = Finite 2\<rparr>, \<lparr>menuItemId = ''m3'', quantity = Finite 1\<rparr>,
                        \<lparr>menuItemId = ''m9'', quantity = Finite 1\<rparr>])
     = (Inl (BadRequestException ''Menu item Moi moi is not available''), sampleDb)"
  using create_first_offending_item [where d = sampleDb and userId = "''u1''" and v = openVendor
      and dto = "sampleDto ''v1'' [\<lparr>menuItemId = ''m1'', quantity = Finite 2\<rparr>, \<lparr>menuItemId = ''m9'', quantity = Finite 1\<rparr>,
                        \<lparr>menuItemId = ''m3'', quantity = Finite 1\<rparr>]"
      and pre = "[\<lparr>menuItemId = ''m1'', quantity = Finite 2\<rparr>]" and item = "\<lparr>menuItemId = ''m9'', quantity = Finite 1\<rparr>"
      and post = "[\<lparr>menuItemId = ''m3'', quantity = Finite 1\<rparr>]" and g = "''a1B2c3D4e5F6''" and now = 1000]
    create_first_offending_item [where d = sampleDb and userId = "''u1''" and v = openVendor
      and dto = "sampleDto ''v1'' [\<lparr>menuItemId = ''m1'', quantity = Finite 2\<rparr>, \<lparr>menuItemId = ''m3'', quantity = Finite 1\<rparr>,
                        \<lparr>menuItemId = ''m9'', quantity = Finite 1\<rparr>]"
      and pre = "[\<lparr>menuItemId = ''m1'', quantity = Finite 2\<rparr>]" and item = "\<lparr>menuItemId = ''m3'', quantity = Finite 1\<rparr>"
      and post = "[\<lparr>menuItemId = ''m9'', quantity = Finite 1\<rparr>]" and g = "''a1B2c3D4e5F6''" and now = 1000]
  by (simp add: sample_simps)

theorem create_atomic_witness:
  "snd (create ''a1B2c3D4e5F6'' 1000 sampleDb ''u1'' (sampleDto ''v2'' [\<lparr>menuItemId = ''m1'', quantity = Finite 2\<rparr>]))
     = sampleDb
   \<and> length (orderModel (snd (create ''a1B2c3D4e5F6'' 1000 sampleDb ''u1''
        (sampleDto ''v1'' [\<lparr>menuItemId = ''m1'', quantity = Finite 2\<rparr>])))) = 1"
proof -
  have 1: "fst (create ''a1B2c3D4e5F6'' 1000 sampleDb ''u1''
      (sampleDto ''v2'' [\<lparr>menuItemId = ''m1'', quantity = Finite 2\<rparr>]))
     = Inl (BadRequestException ''Vendor store is currently closed'')"
    by (simp add: create_def findById_def sample_simps isStoreOpen_select)
  have 2: "\<exists>ord. fst (create ''a1B2c3D4e5F6'' 1000 sampleDb ''u1''
      (sampleDto ''v1'' [\<lparr>menuItemId = ''m1'', quantity = Finite 2\<rparr>])) = Inr ord"
    by (simp add: create_def findById_def sample_simps isStoreOpen_select Let_def)
  have 3: "orderModel sampleDb = []" by (simp add: sampleDb_def)
  from create_atomic [where g = "''a1B2c3D4e5F6''" and now = 1000 and d = sampleDb
         and userId = "''u1''" and dto = "sampleDto ''v2'' [\<lparr>menuItemId = ''m1'', quantity = Finite 2\<rparr>]"] 1
  have a: "snd (create ''a1B2c3D4e5F6'' 1000 sampleDb ''u1''
      (sampleDto ''v2'' [\<lparr>menuItemId = ''m1'', quantity = Finite 2\<rparr>])) = sampleDb"
    by (auto split: prod.splits sum.splits)
  from create_atomic [where g = "''a1B2c3D4e5F6''" and now = 1000 and d = sampleDb
         and userId = "''u1''" and dto = "sampleDto ''v1'' [\<lparr>menuItemId = ''m1'', quantity = Finite 2\<rparr>]"] 2 3
  have b: "length (orderModel (snd (create ''a1B2c3D4e5F6'' 1000 sampleDb ''u1''
        (sampleDto ''v1'' [\<lparr>menuItemId = ''m1'', quantity = Finite 2\<rparr>])))) = 1"
    by (auto split: prod.splits sum.splits)
  from a b show ?thesis by simp
qed

section \<open>OrderService: pagination and counting\<close>

lemma parsedPage_Num: "parsedPage (Some (Num n)) = max 1 n"
  by (simp add: parsedPage_def)

lemma parsedPage_default: "parsedPage None = 1" "parsedPage (Some NaN) = 1"
  by (simp_all add: parsedPage_def)

lemma parsedPage_ge: "1 \<le> parsedPage p"
  by (simp add: parsedPage_def)

lemma parsedLimit_Num: "parsedLimit (Some (Num n)) = (if n = 0 then 10 else min (max 1 n) 100)"
  by (simp add: parsedLimit_def)

lemma parsedLimit_default: "parsedLimit None = 10" "parsedLimit (Some NaN) = 10"
  by (simp_all add: parsedLimit_def)

lemma parsedLimit_range: "1 \<le> parsedLimit l \<and> parsedLimit l \<le> 100"
  by (simp add: parsedLimit_def)

lemma skip_ge: "0 \<le> skip p l"
  using parsedPage_ge [of p] parsedLimit_range [of l] by (simp add: skip_def)

lemma searchClauses_ex:
  "(case searchClauses search of None \<Rightarrow> True
    | Some clauses \<Rightarrow> list_ex (\<lambda>(f, p). regex p (fieldOf f ord)) clauses) =
   (case search of None \<Rightarrow> True
    | Some t \<Rightarrow> trim t = [] \<or> regex (trim t) (customerName ord)
              \<or> regex (trim t) (order.phoneNumber ord) \<or> regex (trim t) (orderId ord))"
  by (simp add: searchClauses_def split: option.splits)

lemma matches_allOrders:
  "matches regex
     \<lparr> q_vendorId = v, q_isDeleted_ne = True,
       q_createdAt = (case sd of None \<Rightarrow> None
                      | Some s \<Rightarrow> (case ed of None \<Rightarrow> None | Some e \<Rightarrow> Some (s, e))),
       q_or = searchClauses search \<rparr> = allOrdersFilter regex v sd ed search"
  by (rule ext) (simp add: matches_def allOrdersFilter_def searchClauses_ex split: option.splits)

lemma matches_todays:
  "matches regex
     \<lparr> q_vendorId = v, q_isDeleted_ne = True, q_createdAt = Some (ts, te),
       q_or = searchClauses search \<rparr> = todaysFilter regex ts te v search"
  by (rule ext) (simp add: matches_def todaysFilter_def searchClauses_ex)

text \<open>The page and the count of a filter predicate.\<close>

lemma findAllVendorOrders_eq:
  "findAllVendorOrders regex d v p l sd ed search =
     \<lparr> orders = take (nat (parsedLimit l)) (drop (nat (skip p l))
                  (sort_key (\<lambda>ord. - createdAt ord) (filter (allOrdersFilter regex v sd ed search) (orderModel d)))),
       total = int (length (filter (allOrdersFilter regex v sd ed search) (orderModel d))),
       page = parsedPage p,
       limit = parsedLimit l,
       totalPages = \<lceil>real_of_int (int (length (filter (allOrdersFilter regex v sd ed search) (orderModel d))))
                      / real_of_int (parsedLimit l)\<rceil> \<rparr>"
  by (simp add: findAllVendorOrders_def Let_def matches_allOrders findSorted_def countDocuments_def)

lemma getTodaysVendorOrders_eq:
  "getTodaysVendorOrders regex ts te d v p l search =
     \<lparr> orders = take (nat (parsedLimit l)) (drop (nat (skip p l))
                  (sort_key (\<lambda>ord. - createdAt ord) (filter (todaysFilter regex ts te v search) (orderModel d)))),
       total = int (length (filter (todaysFilter regex ts te v search) (orderModel d))),
       page = parsedPage p,
       limit = parsedLimit l,
       totalPages = \<lceil>real_of_int (int (length (filter (todaysFilter regex ts te v search) (orderModel d))))
                      / real_of_int (parsedLimit l)\<rceil> \<rparr>"
  by (simp add: getTodaysVendorOrders_def Let_def matches_todays findSorted_def countDocuments_def)

lemma take_length_le: "int (length (take (nat (parsedLimit l)) xs)) \<le> parsedLimit l"
  using parsedLimit_range [of l] by (simp add: min_def) linarith

lemma findAll_cong:
  "parsedPage p = parsedPage p' \<Longrightarrow> parsedLimit l = parsedLimit l' \<Longrightarrow>
   findAllVendorOrders regex d v p l sd ed search = findAllVendorOrders regex d v p' l' sd ed search"
  by (simp add: findAllVendorOrders_eq skip_def)

lemma getTodays_cong:
  "parsedPage p = parsedPage p' \<Longrightarrow> parsedLimit l = parsedLimit l' \<Longrightarrow>
   getTodaysVendorOrders regex ts te d v p l search = getTodaysVendorOrders regex ts te d v p' l' search"
  by (simp add: getTodaysVendorOrders_eq skip_def)

lemma ceiling_pages:
  fixes t l :: int
  assumes "1 \<le> l"
  shows "t \<le> \<lceil>real_of_int t / real_of_int l\<rceil> * l \<and> \<lceil>real_of_int t / real_of_int l\<rceil> * l < t + l"
proof -
  define q where "q = (- t) div l"
  define r where "r = (- t) mod l"
  have c: "\<lceil>real_of_int t / real_of_int l\<rceil> = - q"
    by (simp add: ceiling_divide_eq_div q_def)
  have e: "l * q + r = - t"
    unfolding q_def r_def by (rule mult_div_mod_eq)
  have m: "0 \<le> r" "r < l"
    using assms by (simp_all add: r_def)
  have "- q * l = t + r"
    using e by (simp add: algebra_simps)
  with m c show ?thesis by simp
qed


lemma queryDb_orders: "orderModel queryDb = [order1, order2, order3, order4]"
  by (simp add: queryDb_def)

lemma query_sample_simps:
  "order.vendorId order1 = ''v1''" "order.vendorId order2 = ''v1''"
  "order.vendorId order3 = ''v1''" "order.vendorId order4 = ''v2''"
  "isDeleted order1 = Some False" "isDeleted order2 = None"
  "isDeleted order3 = Some True" "isDeleted order4 = Some False"
  "createdAt order1 = 100" "createdAt order2 = 200" "createdAt order3 = 300" "createdAt order4 = 250"
  by (simp_all add: order1_def order2_def order3_def order4_def sampleOrder_def)

lemma query_sample_no_search:
  "filter (allOrdersFilter regex ''v1'' None None None) (orderModel queryDb) = [order1, order2]"
  "filter (todaysFilter regex 150 400 ''v1'' None) (orderModel queryDb) = [order2]"
  by (simp_all add: allOrdersFilter_def todaysFilter_def queryDb_orders query_sample_simps)

text \<open>
  Claim C2 says that \<open>limit=0\<close> behaves like \<open>limit=1\<close>. It does not: \<open>0\<close> is
  falsy, so \<open>Number(limit) || 10\<close> is \<open>10\<close>. With two live orders of vendor
  \<open>v1\<close>, the query with limit \<open>0\<close> returns both, the query with limit \<open>1\<close>
  returns one.
\<close>
theorem limit_zero_counterexample:
  "orders (findAllVendorOrders regex_i queryDb ''v1'' None (Some (Num 0)) None None None) = [order2, order1]
   \<and> orders (findAllVendorOrders regex_i queryDb ''v1'' None (Some (Num 1)) None None None) = [order2]
   \<and> limit (findAllVendorOrders regex_i queryDb ''v1'' None (Some (Num 0)) None None None) = 10
   \<and> limit (findAllVendorOrders regex_i queryDb ''v1'' None (Some (Num 1)) None None None) = 1"
  by (simp add: findAllVendorOrders_eq query_sample_no_search parsedLimit_Num skip_def
        parsedPage_default query_sample_simps)

text \<open>
  Claim C2, as the code has it, for both queries. The page is at least 1: a number \<open>n\<close>
  becomes \<open>max 1 n\<close>, and a missing or non-numeric page becomes 1, so the pages
  \<open>0\<close> and \<open>-5\<close> give the result of page \<open>1\<close>. The limit lies in \<open>[1, 100]\<close>:
  a number other than \<open>0\<close> is clamped, while \<open>0\<close> and a missing or non-numeric
  limit become the default 10, so the limit \<open>1000\<close> gives the result of \<open>100\<close> and
  the limit \<open>0\<close> that of \<open>10\<close>. The returned orders are the matching orders, newest
  first, after dropping \<open>(page - 1) * limit\<close> of them and keeping at most \<open>limit\<close>.
\<close>
theorem vendor_query_pagination:
  "1 \<le> parsedPage p
   \<and> parsedPage (Some (Num n)) = max 1 n
   \<and> 1 \<le> parsedLimit l \<and> parsedLimit l \<le> 100
   \<and> parsedLimit (Some (Num n)) = (if n = 0 then 10 else min (max 1 n) 100)
   \<and> parsedPage None = 1 \<and> parsedPage (Some NaN) = 1
   \<and> parsedLimit None = 10 \<and> parsedLimit (Some NaN) = 10
   \<and> page (findAllVendorOrders regex d v p l sd ed s) = parsedPage p
   \<and> limit (findAllVendorOrders regex d v p l sd ed s) = parsedLimit l
   \<and> orders (findAllVendorOrders regex d v p l sd ed s) =
       take (nat (parsedLimit l)) (drop (nat ((parsedPage p - 1) * parsedLimit l))
         (sort_key (\<lambda>ord. - createdAt ord) (filter (allOrdersFilter regex v sd ed s) (orderModel d))))
   \<and> int (length (orders (findAllVendorOrders regex d v p l sd ed s))) \<le> parsedLimit l
   \<and> findAllVendorOrders regex d v (Some (Num 0)) l sd ed s = findAllVendorOrders regex d v (Some (Num 1)) l sd ed s
   \<and> findAllVendorOrders regex d v (Some (Num (- 5))) l sd ed s = findAllVendorOrders regex d v (Some (Num 1)) l sd ed s
   \<and> findAllVendorOrders regex d v p (Some (Num 1000)) sd ed s = findAllVendorOrders regex d v p (Some (Num 100)) sd ed s
   \<and> findAllVendorOrders regex d v p (Some (Num 0)) sd ed s = findAllVendorOrders regex d v p (Some (Num 10)) sd ed s
   \<and> page (getTodaysVendorOrders regex ts te d v p l s) = parsedPage p
   \<and> limit (getTodaysVendorOrders regex ts te d v p l s) = parsedLimit l
   \<and> orders (getTodaysVendorOrders regex ts te d v p l s) =
       take (nat (parsedLimit l)) (drop (nat ((parsedPage p - 1) * parsedLimit l))
         (sort_key (\<lambda>ord. - createdAt ord) (filter (todaysFilter regex ts te v s) (orderModel d))))
   \<and> int (length (orders (getTodaysVendorOrders regex ts te d v p l s))) \<le> parsedLimit l
   \<and> getTodaysVendorOrders regex ts te d v (Some (Num 0)) l s = getTodaysVendorOrders regex ts te d v (Some (Num 1)) l s
   \<and> getTodaysVendorOrders regex ts te d v (Some (Num (- 5))) l s = getTodaysVendorOrders regex ts te d v (Some (Num 1)) l s
   \<and> getTodaysVendorOrders regex ts te d v p (Some (Num 1000)) s = getTodaysVendorOrders regex ts te d v p (Some (Num 100)) s
   \<and> getTodaysVendorOrders regex ts te d v p (Some (Num 0)) s = getTodaysVendorOrders regex ts te d v p (Some (Num 10)) s"
proof -
  have pg: "parsedPage (Some (Num 0)) = parsedPage (Some (Num 1))"
    "parsedPage (Some (Num (- 5))) = parsedPage (Some (Num 1))"
    by (simp_all add: parsedPage_Num)
  have lm: "parsedLimit (Some (Num 1000)) = parsedLimit (Some (Num 100))"
    "parsedLimit (Some (Num 0)) = parsedLimit (Some (Num 10))"
    by (simp_all add: parsedLimit_Num)
  have a: "orders (findAllVendorOrders regex d v p l sd ed s) =
       take (nat (parsedLimit l)) (drop (nat ((parsedPage p - 1) * parsedLimit l))
         (sort_key (\<lambda>ord. - createdAt ord) (filter (allOrdersFilter regex v sd ed s) (orderModel d))))"
    by (simp add: findAllVendorOrders_eq skip_def)
  have b: "orders (getTodaysVendorOrders regex ts te d v p l s) =
       take (nat (parsedLimit l)) (drop (nat ((parsedPage p - 1) * parsedLimit l))
         (sort_key (\<lambda>ord. - createdAt ord) (filter (todaysFilter regex ts te v s) (orderModel d))))"
    by (simp add: getTodaysVendorOrders_eq skip_def)
  have a': "int (length (orders (findAllVendorOrders regex d v p l sd ed s))) \<le> parsedLimit l"
    unfolding a by (rule take_length_le)
  have b': "int (length (orders (getTodaysVendorOrders regex ts te d v p l s))) \<le> parsedLimit l"
    unfolding b by (rule take_length_le)
  have c: "page (findAllVendorOrders regex d v p l sd ed s) = parsedPage p"
    "limit (findAllVendorOrders regex d v p l sd ed s) = parsedLimit l"
    "page (getTodaysVendorOrders regex ts te d v p l s) = parsedPage p"
    "limit (getTodaysVendorOrders regex ts te d v p l s) = parsedLimit l"
    by (simp_all add: findAllVendorOrders_eq getTodaysVendorOrders_eq)
  note eqs = findAll_cong [OF pg(1) refl] findAll_cong [OF pg(2) refl]
    findAll_cong [OF refl lm(1)] findAll_cong [OF refl lm(2)]
    getTodays_cong [OF pg(1) refl] getTodays_cong [OF pg(2) refl]
    getTodays_cong [OF refl lm(1)] getTodays_cong [OF refl lm(2)]
  show ?thesis
    by (intro conjI parsedPage_ge parsedPage_Num parsedLimit_Num a b a' b' c eqs
          parsedPage_default parsedLimit_default
          parsedLimit_range [THEN conjunct1] parsedLimit_range [THEN conjunct2])
qed

theorem vendor_query_pagination_witness:
  "orders (findAllVendorOrders regex_i queryDb ''v1'' (Some (Num 2)) (Some (Num 1)) None None None) = [order1]
   \<and> findAllVendorOrders regex_i queryDb ''v1'' (Some (Num (- 5))) (Some (Num 1)) None None None
       = findAllVendorOrders regex_i queryDb ''v1'' (Some (Num 1)) (Some (Num 1)) None None None
   \<and> orders (getTodaysVendorOrders regex_i 150 400 queryDb ''v1'' (Some (Num 2)) (Some (Num 1)) None) = []"
proof -
  note T = vendor_query_pagination [where regex = regex_i and d = queryDb and v = "''v1''"
      and p = "Some (Num 2)" and l = "Some (Num 1)" and sd = None and ed = None and s = None
      and n = 2 and ts = 150 and te = 400]
  from T have "orders (findAllVendorOrders regex_i queryDb ''v1'' (Some (Num 2)) (Some (Num 1)) None None None) =
       take (nat (parsedLimit (Some (Num 1)))) (drop (nat ((parsedPage (Some (Num 2)) - 1) * parsedLimit (Some (Num 1))))
         (sort_key (\<lambda>ord. - createdAt ord) (filter (allOrdersFilter regex_i ''v1'' None None None) (orderModel queryDb))))"
    by (elim conjE)
  then have 1: "orders (findAllVendorOrders regex_i queryDb ''v1'' (Some (Num 2)) (Some (Num 1)) None None None) = [order1]"
    by (simp add: query_sample_no_search parsedLimit_Num parsedPage_Num query_sample_simps)
  from T have 2: "findAllVendorOrders regex_i queryDb ''v1'' (Some (Num (- 5))) (Some (Num 1)) None None None
       = findAllVendorOrders regex_i queryDb ''v1'' (Some (Num 1)) (Some (Num 1)) None None None"
    by (elim conjE)
  from T have "orders (getTodaysVendorOrders regex_i 150 400 queryDb ''v1'' (Some (Num 2)) (Some (Num 1)) None) =
       take (nat (parsedLimit (Some (Num 1)))) (drop (nat ((parsedPage (Some (Num 2)) - 1) * parsedLimit (Some (Num 1))))
         (sort_key (\<lambda>ord. - createdAt ord) (filter (todaysFilter regex_i 150 400 ''v1'' None) (orderModel queryDb))))"
    by (elim conjE)
  then have 3: "orders (getTodaysVendorOrders regex_i 150 400 queryDb ''v1'' (Some (Num 2)) (Some (Num 1)) None) = []"
    by (simp add: query_sample_no_search parsedLimit_Num parsedPage_Num query_sample_simps)
  from 1 2 3 show ?thesis by simp
qed


lemma filter_not_deleted_all:
  "filter (allOrdersFilter regex v sd ed s) (filter (\<lambda>ord. isDeleted ord \<noteq> Some True) xs)
     = filter (allOrdersFilter regex v sd ed s) xs"
  by (induction xs) (auto simp: allOrdersFilter_def)

lemma filter_not_deleted_today:
  "filter (todaysFilter regex ts te v s) (filter (\<lambda>ord. isDeleted ord \<noteq> Some True) xs)
     = filter (todaysFilter regex ts te v s) xs"
  by (induction xs) (auto simp: todaysFilter_def)

lemma page_subset:
  "set (take n (drop k (sort_key f (filter P xs)))) \<subseteq> {x \<in> set xs. P x}"
proof -
  have "set (take n (drop k (sort_key f (filter P xs)))) \<subseteq> set (sort_key f (filter P xs))"
    by (meson set_take_subset set_drop_subset subset_trans)
  then show ?thesis by auto
qed

lemma findAll_total:
  "total (findAllVendorOrders regex d v p l sd ed s)
     = int (length (filter (allOrdersFilter regex v sd ed s) (orderModel d)))"
  by (simp add: findAllVendorOrders_eq)

lemma getTodays_total:
  "total (getTodaysVendorOrders regex ts te d v p l s)
     = int (length (filter (todaysFilter regex ts te v s) (orderModel d)))"
  by (simp add: getTodaysVendorOrders_eq)

lemma findAll_orders_subset:
  "set (orders (findAllVendorOrders regex d v p l sd ed s))
     \<subseteq> {ord \<in> set (orderModel d). allOrdersFilter regex v sd ed s ord}"
  by (simp add: findAllVendorOrders_eq page_subset)

lemma getTodays_orders_subset:
  "set (orders (getTodaysVendorOrders regex ts te d v p l s))
     \<subseteq> {ord \<in> set (orderModel d). todaysFilter regex ts te v s ord}"
  by (simp add: getTodaysVendorOrders_eq page_subset)

lemma findAll_totalPages:
  "totalPages (findAllVendorOrders regex d v p l sd ed s)
     = \<lceil>real_of_int (total (findAllVendorOrders regex d v p l sd ed s))
          / real_of_int (limit (findAllVendorOrders regex d v p l sd ed s))\<rceil>"
  by (simp add: findAllVendorOrders_eq)

lemma getTodays_totalPages:
  "totalPages (getTodaysVendorOrders regex ts te d v p l s)
     = \<lceil>real_of_int (total (getTodaysVendorOrders regex ts te d v p l s))
          / real_of_int (limit (getTodaysVendorOrders regex ts te d v p l s))\<rceil>"
  by (simp add: getTodaysVendorOrders_eq)

lemma findAll_orders_page:
  "orders (findAllVendorOrders regex d v p l sd ed s)
     = take (nat (limit (findAllVendorOrders regex d v p l sd ed s)))
         (drop (nat ((page (findAllVendorOrders regex d v p l sd ed s) - 1)
                      * limit (findAllVendorOrders regex d v p l sd ed s)))
            (sort_key (\<lambda>ord. - createdAt ord)
               (filter (allOrdersFilter regex v sd ed s) (orderModel d))))"
  by (simp add: findAllVendorOrders_eq skip_def)

lemma getTodays_orders_page:
  "orders (getTodaysVendorOrders regex ts te d v p l s)
     = take (nat (limit (getTodaysVendorOrders regex ts te d v p l s)))
         (drop (nat ((page (getTodaysVendorOrders regex ts te d v p l s) - 1)
                      * limit (getTodaysVendorOrders regex ts te d v p l s)))
            (sort_key (\<lambda>ord. - createdAt ord)
               (filter (todaysFilter regex ts te v s) (orderModel d))))"
  by (simp add: getTodaysVendorOrders_eq skip_def)

lemma findAll_pages_bounds:
  "total (findAllVendorOrders regex d v p l sd ed s)
     \<le> totalPages (findAllVendorOrders regex d v p l sd ed s) * limit (findAllVendorOrders regex d v p l sd ed s)
   \<and> totalPages (findAllVendorOrders regex d v p l sd ed s) * limit (findAllVendorOrders regex d v p l sd ed s)
     < total (findAllVendorOrders regex d v p l sd ed s) + limit (findAllVendorOrders regex d v p l sd ed s)"
  using ceiling_pages [of "parsedLimit l"
      "int (length (filter (allOrdersFilter regex v sd ed s) (orderModel d)))"]
    parsedLimit_range [of l]
  by (simp add: findAllVendorOrders_eq)

lemma getTodays_pages_bounds:
  "total (getTodaysVendorOrders regex ts te d v p l s)
     \<le> totalPages (getTodaysVendorOrders regex ts te d v p l s) * limit (getTodaysVendorOrders regex ts te d v p l s)
   \<and> totalPages (getTodaysVendorOrders regex ts te d v p l s) * limit (getTodaysVendorOrders regex ts te d v p l s)
     < total (getTodaysVendorOrders regex ts te d v p l s) + limit (getTodaysVendorOrders regex ts te d v p l s)"
  using ceiling_pages [of "parsedLimit l"
      "int (length (filter (todaysFilter regex ts te v s) (orderModel d)))"]
    parsedLimit_range [of l]
  by (simp add: getTodaysVendorOrders_eq)

text \<open>
  Claim C6, for both queries. \<open>total\<close> is the number of stored orders that satisfy the
  filter of the query (vendor scope, not deleted, date range, search); the returned
  page is cut out of the orders that satisfy the same filter: they are sorted newest
  first, \<open>(page - 1) * limit\<close> of them are dropped and at most \<open>limit\<close> kept, so
  every returned order satisfies the filter; \<open>total\<close> does not depend on page and limit; no
  returned order has \<open>isDeleted = true\<close>, and removing the deleted orders from the
  collection leaves \<open>total\<close> as it is; \<open>totalPages\<close> is the ceiling of
  \<open>total / limit\<close>, the least number of pages of \<open>limit\<close> orders that hold
  \<open>total\<close> orders.
\<close>
theorem vendor_query_total:
  "total (findAllVendorOrders regex d v p l sd ed s)
     = int (length (filter (allOrdersFilter regex v sd ed s) (orderModel d)))
   \<and> orders (findAllVendorOrders regex d v p l sd ed s)
       = take (nat (limit (findAllVendorOrders regex d v p l sd ed s)))
           (drop (nat ((page (findAllVendorOrders regex d v p l sd ed s) - 1)
                        * limit (findAllVendorOrders regex d v p l sd ed s)))
              (sort_key (\<lambda>ord. - createdAt ord)
                 (filter (allOrdersFilter regex v sd ed s) (orderModel d))))
   \<and> set (orders (findAllVendorOrders regex d v p l sd ed s))
       \<subseteq> {ord \<in> set (orderModel d). allOrdersFilter regex v sd ed s ord}
   \<and> total (findAllVendorOrders regex d v p' l' sd ed s) = total (findAllVendorOrders regex d v p l sd ed s)
   \<and> (\<forall>ord \<in> set (orders (findAllVendorOrders regex d v p l sd ed s)). isDeleted ord \<noteq> Some True)
   \<and> total (findAllVendorOrders regex
              (d\<lparr>orderModel := filter (\<lambda>ord. isDeleted ord \<noteq> Some True) (orderModel d)\<rparr>) v p l sd ed s)
       = total (findAllVendorOrders regex d v p l sd ed s)
   \<and> totalPages (findAllVendorOrders regex d v p l sd ed s)
       = \<lceil>real_of_int (total (findAllVendorOrders regex d v p l sd ed s))
            / real_of_int (limit (findAllVendorOrders regex d v p l sd ed s))\<rceil>
   \<and> total (findAllVendorOrders regex d v p l sd ed s)
       \<le> totalPages (findAllVendorOrders regex d v p l sd ed s) * limit (findAllVendorOrders regex d v p l sd ed s)
   \<and> totalPages (findAllVendorOrders regex d v p l sd ed s) * limit (findAllVendorOrders regex d v p l sd ed s)
       < total (findAllVendorOrders regex d v p l sd ed s) + limit (findAllVendorOrders regex d v p l sd ed s)
   \<and> total (getTodaysVendorOrders regex ts te d v p l s)
     = int (length (filter (todaysFilter regex ts te v s) (orderModel d)))
   \<and> orders (getTodaysVendorOrders regex ts te d v p l s)
       = take (nat (limit (getTodaysVendorOrders regex ts te d v p l s)))
           (drop (nat ((page (getTodaysVendorOrders regex ts te d v p l s) - 1)
                        * limit (getTodaysVendorOrders regex ts te d v p l s)))
              (sort_key (\<lambda>ord. - createdAt ord)
                 (filter (todaysFilter regex ts te v s) (orderModel d))))
   \<and> set (orders (getTodaysVendorOrders regex ts te d v p l s))
       \<subseteq> {ord \<in> set (orderModel d). todaysFilter regex ts te v s ord}
   \<and> total (getTodaysVendorOrders regex ts te d v p' l' s) = total (getTodaysVendorOrders regex ts te d v p l s)
   \<and> (\<forall>ord \<in> set (orders (getTodaysVendorOrders regex ts te d v p l s)). isDeleted ord \<noteq> Some True)
   \<and> total (getTodaysVendorOrders regex ts te
              (d\<lparr>orderModel := filter (\<lambda>ord. isDeleted ord \<noteq> Some True) (orderModel d)\<rparr>) v p l s)
       = total (getTodaysVendorOrders regex ts te d v p l s)
   \<and> totalPages (getTodaysVendorOrders regex ts te d v p l s)
       = \<lceil>real_of_int (total (getTodaysVendorOrders regex ts te d v p l s))
            / real_of_int (limit (getTodaysVendorOrders regex ts te d v p l s))\<rceil>
   \<and> total (getTodaysVendorOrders regex ts te d v p l s)
       \<le> totalPages (getTodaysVendorOrders regex ts te d v p l s) * limit (getTodaysVendorOrders regex ts te d v p l s)
   \<and> totalPages (getTodaysVendorOrders regex ts te d v p l s) * limit (getTodaysVendorOrders regex ts te d v p l s)
       < total (getTodaysVendorOrders regex ts te d v p l s) + limit (getTodaysVendorOrders regex ts te d v p l s)"
proof -
  have a: "\<forall>ord \<in> set (orders (findAllVendorOrders regex d v p l sd ed s)). isDeleted ord \<noteq> Some True"
    using findAll_orders_subset [of regex d v p l sd ed s] by (auto simp: allOrdersFilter_def)
  have b: "\<forall>ord \<in> set (orders (getTodaysVendorOrders regex ts te d v p l s)). isDeleted ord \<noteq> Some True"
    using getTodays_orders_subset [of regex ts te d v p l s] by (auto simp: todaysFilter_def)
  have c: "total (findAllVendorOrders regex d v p' l' sd ed s) = total (findAllVendorOrders regex d v p l sd ed s)"
    by (simp add: findAll_total)
  have c': "total (getTodaysVendorOrders regex ts te d v p' l' s) = total (getTodaysVendorOrders regex ts te d v p l s)"
    by (simp add: getTodays_total)
  have e: "total (findAllVendorOrders regex
              (d\<lparr>orderModel := filter (\<lambda>ord. isDeleted ord \<noteq> Some True) (orderModel d)\<rparr>) v p l sd ed s)
       = total (findAllVendorOrders regex d v p l sd ed s)"
    by (simp add: findAll_total filter_not_deleted_all del: filter_filter)
  have e': "total (getTodaysVendorOrders regex ts te
              (d\<lparr>orderModel := filter (\<lambda>ord. isDeleted ord \<noteq> Some True) (orderModel d)\<rparr>) v p l s)
       = total (getTodaysVendorOrders regex ts te d v p l s)"
    by (simp add: getTodays_total filter_not_deleted_today del: filter_filter)
  show ?thesis
    by (intro conjI findAll_total getTodays_total findAll_orders_subset getTodays_orders_subset
          findAll_orders_page getTodays_orders_page
          findAll_totalPages getTodays_totalPages a b c c' e e'
          findAll_pages_bounds [THEN conjunct1] findAll_pages_bounds [THEN conjunct2]
          getTodays_pages_bounds [THEN conjunct1] getTodays_pages_bounds [THEN conjunct2])
qed

theorem vendor_query_total_witness:
  "total (findAllVendorOrders regex_i queryDb ''v1'' (Some (Num 2)) (Some (Num 1)) None None None) = 2
   \<and> totalPages (findAllVendorOrders regex_i queryDb ''v1'' (Some (Num 2)) (Some (Num 1)) None None None) = 2
   \<and> order3 \<notin> set (orders (findAllVendorOrders regex_i queryDb ''v1'' (Some (Num 2)) (Some (Num 1)) None None None))
   \<and> total (getTodaysVendorOrders regex_i 150 400 queryDb ''v1'' (Some (Num 2)) (Some (Num 1)) None) = 1
   \<and> orders (findAllVendorOrders regex_i queryDb ''v1'' (Some (Num 2)) (Some (Num 1)) None None None) = [order1]"
proof -
  note T = vendor_query_total [where regex = regex_i and d = queryDb and v = "''v1''"
      and p = "Some (Num 2)" and l = "Some (Num 1)" and sd = None and ed = None and s = None
      and ts = 150 and te = 400 and p' = None and l' = None]
  from T have "total (findAllVendorOrders regex_i queryDb ''v1'' (Some (Num 2)) (Some (Num 1)) None None None)
     = int (length (filter (allOrdersFilter regex_i ''v1'' None None None) (orderModel queryDb)))"
    by (elim conjE)
  then have 1: "total (findAllVendorOrders regex_i queryDb ''v1'' (Some (Num 2)) (Some (Num 1)) None None None) = 2"
    by (simp add: query_sample_no_search)
  from T have "totalPages (findAllVendorOrders regex_i queryDb ''v1'' (Some (Num 2)) (Some (Num 1)) None None None)
       = \<lceil>real_of_int (total (findAllVendorOrders regex_i queryDb ''v1'' (Some (Num 2)) (Some (Num 1)) None None None))
            / real_of_int (limit (findAllVendorOrders regex_i queryDb ''v1'' (Some (Num 2)) (Some (Num 1)) None None None))\<rceil>"
    by (elim conjE)
  then have 2: "totalPages (findAllVendorOrders regex_i queryDb ''v1'' (Some (Num 2)) (Some (Num 1)) None None None) = 2"
    by (simp add: 1 findAllVendorOrders_eq parsedLimit_Num query_sample_no_search)
  from T have "\<forall>ord \<in> set (orders (findAllVendorOrders regex_i queryDb ''v1'' (Some (Num 2)) (Some (Num 1)) None None None)).
      isDeleted ord \<noteq> Some True"
    by (elim conjE)
  then have 3: "order3 \<notin> set (orders (findAllVendorOrders regex_i queryDb ''v1'' (Some (Num 2)) (Some (Num 1)) None None None))"
    by (auto simp: query_sample_simps)
  from T have "total (getTodaysVendorOrders regex_i 150 400 queryDb ''v1'' (Some (Num 2)) (Some (Num 1)) None)
     = int (length (filter (todaysFilter regex_i 150 400 ''v1'' None) (orderModel queryDb)))"
    by (elim conjE)
  then have 4: "total (getTodaysVendorOrders regex_i 150 400 queryDb ''v1'' (Some (Num 2)) (Some (Num 1)) None) = 1"
    by (simp add: query_sample_no_search)
  from T have "orders (findAllVendorOrders regex_i queryDb ''v1'' (Some (Num 2)) (Some (Num 1)) None None None)
       = take (nat (limit (findAllVendorOrders regex_i queryDb ''v1'' (Some (Num 2)) (Some (Num 1)) None None None)))
           (drop (nat ((page (findAllVendorOrders regex_i queryDb ''v1'' (Some (Num 2)) (Some (Num 1)) None None None) - 1)
                        * limit (findAllVendorOrders regex_i queryDb ''v1'' (Some (Num 2)) (Some (Num 1)) None None None)))
              (sort_key (\<lambda>ord. - createdAt ord)
                 (filter (allOrdersFilter regex_i ''v1'' None None None) (orderModel queryDb))))"
    by (elim conjE)
  moreover have "limit (findAllVendorOrders regex_i queryDb ''v1'' (Some (Num 2)) (Some (Num 1)) None None None) = 1"
    "page (findAllVendorOrders regex_i queryDb ''v1'' (Some (Num 2)) (Some (Num 1)) None None None) = 2"
    by (simp_all add: findAllVendorOrders_eq parsedLimit_Num parsedPage_Num)
  ultimately have 5: "orders (findAllVendorOrders regex_i queryDb ''v1'' (Some (Num 2)) (Some (Num 1)) None None None) = [order1]"
    by (simp add: query_sample_no_search query_sample_simps)
  from 1 2 3 4 5 show ?thesis by (intro conjI)
qed

section \<open>The search filter\<close>

lemma compilePattern_plain:
  "\<not> list_ex isSpecial t \<Longrightarrow> compilePattern t = Some (map Literal t)"
  by (induction t) (auto simp: isSpecial_def)

lemma matchHere_literal:
  "matchHere (map Literal t) s = prefix (toLowerCase t) (toLowerCase s)"
proof (induction t arbitrary: s)
  case Nil
  show ?case by (simp add: toLowerCase_def)
next
  case (Cons x t)
  show ?case
  proof (cases s)
    case Nil
    then show ?thesis by (simp add: toLowerCase_def)
  next
    case (Cons c cs)
    with Cons.IH [of cs] show ?thesis by (simp add: toLowerCase_def)
  qed
qed

lemma matchSomewhere_literal:
  "matchSomewhere (map Literal t) s = sublist (toLowerCase t) (toLowerCase s)"
proof (induction s)
  case Nil
  show ?case by (cases t) (simp_all add: toLowerCase_def)
next
  case (Cons c cs)
  have "sublist (toLowerCase t) (toLowerCase (c # cs)) \<longleftrightarrow>
        prefix (toLowerCase t) (toLowerCase (c # cs)) \<or> sublist (toLowerCase t) (toLowerCase cs)"
    by (simp add: toLowerCase_def sublist_Cons_right)
  with Cons.IH show ?case by (simp add: matchHere_literal)
qed

lemma regex_i_plain:
  "\<not> list_ex isSpecial t \<Longrightarrow> regex_i t s = containsIgnoreCase t s"
  by (simp add: regex_i_def compilePattern_plain matchSomewhere_literal containsIgnoreCase_def)

lemma order_fields:
  "customerName order1 = ''Ada Obi''" "order.phoneNumber order1 = ''08012345678''"
  "orderId order1 = ''ST-aaaaaaaaaaa1''"
  "customerName order2 = ''Bola Ade''" "order.phoneNumber order2 = ''07098765432''"
  "orderId order2 = ''ST-bbbbbbbbbbb2''"
  "customerName order3 = ''Chidi Eze''" "customerName order4 = ''Dayo Ojo''"
  by (simp_all add: order1_def order2_def order3_def order4_def sampleOrder_def)

lemma dot_not_contained:
  "\<not> containsIgnoreCase ''.'' ''Ada Obi''" "\<not> containsIgnoreCase ''.'' ''08012345678''"
  "\<not> containsIgnoreCase ''.'' ''ST-aaaaaaaaaaa1''"
  "\<not> containsIgnoreCase ''.'' ''Bola Ade''" "\<not> containsIgnoreCase ''.'' ''07098765432''"
  "\<not> containsIgnoreCase ''.'' ''ST-bbbbbbbbbbb2''"
  by (simp_all add: containsIgnoreCase_def toLowerCase_def lowerChar_def sublist_Cons_right)

lemma dot_matches:
  "regex_i ''.'' ''Ada Obi''" "regex_i ''.'' ''Bola Ade''"
  by (simp_all add: regex_i_def)

lemma trim_dot: "trim ''.'' = ''.''"
  by (simp add: trim_def isWhiteSpace_def)

text \<open>
  Claim C7 at the search term \<open>.\<close>: the term does not occur in the customer name, the
  phone number or the order id of \<open>order1\<close> and \<open>order2\<close>, and yet both queries
  return them, since the term is used as a pattern and \<open>.\<close> matches any character.
\<close>
theorem search_wildcard_matches_all:
  "orders (findAllVendorOrders regex_i queryDb ''v1'' None None None None (Some ''.'')) = [order2, order1]
   \<and> orders (getTodaysVendorOrders regex_i 150 400 queryDb ''v1'' None None (Some ''.'')) = [order2]
   \<and> \<not> containsIgnoreCase ''.'' (customerName order1)
   \<and> \<not> containsIgnoreCase ''.'' (order.phoneNumber order1)
   \<and> \<not> containsIgnoreCase ''.'' (orderId order1)
   \<and> \<not> containsIgnoreCase ''.'' (customerName order2)
   \<and> \<not> containsIgnoreCase ''.'' (order.phoneNumber order2)
   \<and> \<not> containsIgnoreCase ''.'' (orderId order2)"
proof -
  have f: "filter (allOrdersFilter regex_i ''v1'' None None (Some ''.'')) (orderModel queryDb) = [order1, order2]"
    by (simp add: allOrdersFilter_def queryDb_def trim_dot order_fields dot_matches)
       (simp add: order1_def order2_def order3_def order4_def sampleOrder_def)
  have g: "filter (todaysFilter regex_i 150 400 ''v1'' (Some ''.'')) (orderModel queryDb) = [order2]"
    by (simp add: todaysFilter_def queryDb_def trim_dot order_fields dot_matches)
       (simp add: order1_def order2_def order3_def order4_def sampleOrder_def)
  have a: "orders (findAllVendorOrders regex_i queryDb ''v1'' None None None None (Some ''.'')) = [order2, order1]"
    by (simp add: findAllVendorOrders_eq f parsedLimit_default parsedPage_default skip_def query_sample_simps)
  have b: "orders (getTodaysVendorOrders regex_i 150 400 queryDb ''v1'' None None (Some ''.'')) = [order2]"
    by (simp add: getTodaysVendorOrders_eq g parsedLimit_default parsedPage_default skip_def)
  show ?thesis
    by (simp add: a b order_fields dot_not_contained)
qed

section \<open>VendorService: opening and closing the store\<close>

lemma setStoreOpen_found:
  "vendorModel d vid = Some v \<Longrightarrow>
   findByIdAndUpdate_isStoreOpen d vid b =
     (Some (select_no_password (v\<lparr>isStoreOpen := b\<rparr>)),
      d\<lparr>vendorModel := (vendorModel d)(vid \<mapsto> v\<lparr>isStoreOpen := b\<rparr>)\<rparr>)"
  by (simp add: findByIdAndUpdate_isStoreOpen_def)

lemma setStoreOpen_missing:
  "vendorModel d vid = None \<Longrightarrow> findByIdAndUpdate_isStoreOpen d vid b = (None, d)"
  by (simp add: findByIdAndUpdate_isStoreOpen_def)

lemma setStoreOpen_twice:
  "vendorModel d vid = Some v \<Longrightarrow>
   findByIdAndUpdate_isStoreOpen (snd (findByIdAndUpdate_isStoreOpen d vid b)) vid b
     = findByIdAndUpdate_isStoreOpen d vid b"
  by (simp add: findByIdAndUpdate_isStoreOpen_def)

text \<open>
  Claim C9. For a vendor id that resolves, \<open>openStore\<close> stores and returns the vendor
  with \<open>isStoreOpen = true\<close> and \<open>closeStore\<close> with \<open>isStoreOpen = false\<close>,
  whatever the flag was; a second call gives the same result and state as the first.
  For an id that does not resolve, both throw \<open>NotFoundException\<close> and change nothing.
\<close>
theorem store_flag_idempotent:
  "(\<forall>v. vendorModel d vid = Some v \<longrightarrow>
       openStore d vid =
         (Inr (select_no_password (v\<lparr>isStoreOpen := True\<rparr>)),
          d\<lparr>vendorModel := (vendorModel d)(vid \<mapsto> v\<lparr>isStoreOpen := True\<rparr>)\<rparr>)
     \<and> closeStore d vid =
         (Inr (select_no_password (v\<lparr>isStoreOpen := False\<rparr>)),
          d\<lparr>vendorModel := (vendorModel d)(vid \<mapsto> v\<lparr>isStoreOpen := False\<rparr>)\<rparr>)
     \<and> openStore (snd (openStore d vid)) vid = openStore d vid
     \<and> closeStore (snd (closeStore d vid)) vid = closeStore d vid)
   \<and> (vendorModel d vid = None \<longrightarrow>
       openStore d vid = (Inl (NotFoundException ''Vendor not found''), d)
     \<and> closeStore d vid = (Inl (NotFoundException ''Vendor not found''), d))"
proof (intro conjI allI impI)
  fix v assume v: "vendorModel d vid = Some v"
  show "openStore d vid =
         (Inr (select_no_password (v\<lparr>isStoreOpen := True\<rparr>)),
          d\<lparr>vendorModel := (vendorModel d)(vid \<mapsto> v\<lparr>isStoreOpen := True\<rparr>)\<rparr>)"
    by (simp add: openStore_def setStoreOpen_found [OF v])
  show "closeStore d vid =
         (Inr (select_no_password (v\<lparr>isStoreOpen := False\<rparr>)),
          d\<lparr>vendorModel := (vendorModel d)(vid \<mapsto> v\<lparr>isStoreOpen := False\<rparr>)\<rparr>)"
    by (simp add: closeStore_def setStoreOpen_found [OF v])
  have o: "snd (openStore d vid) = snd (findByIdAndUpdate_isStoreOpen d vid True)"
    by (simp add: openStore_def setStoreOpen_found [OF v])
  show "openStore (snd (openStore d vid)) vid = openStore d vid"
    unfolding o by (simp add: openStore_def setStoreOpen_twice [OF v])
  have c: "snd (closeStore d vid) = snd (findByIdAndUpdate_isStoreOpen d vid False)"
    by (simp add: closeStore_def setStoreOpen_found [OF v])
  show "closeStore (snd (closeStore d vid)) vid = closeStore d vid"
    unfolding c by (simp add: closeStore_def setStoreOpen_twice [OF v])
next
  assume n: "vendorModel d vid = None"
  show "openStore d vid = (Inl (NotFoundException ''Vendor not found''), d)"
    by (simp add: openStore_def setStoreOpen_missing [OF n])
  show "closeStore d vid = (Inl (NotFoundException ''Vendor not found''), d)"
    by (simp add: closeStore_def setStoreOpen_missing [OF n])
qed

theorem store_flag_idempotent_witness:
  "isStoreOpen (projr (fst (openStore sampleDb ''v2'')))
   \<and> isStoreOpen (projr (fst (openStore (snd (openStore sampleDb ''v2'')) ''v2'')))
   \<and> isStoreOpen (projr (fst (openStore sampleDb ''v1'')))
   \<and> \<not> isStoreOpen (projr (fst (closeStore sampleDb ''v1'')))
   \<and> openStore sampleDb ''v9'' = (Inl (NotFoundException ''Vendor not found''), sampleDb)"
proof -
  note T2 = store_flag_idempotent [where d = sampleDb and vid = "''v2''", THEN conjunct1, rule_format,
      OF sample_simps(3)]
  note T1 = store_flag_idempotent [where d = sampleDb and vid = "''v1''", THEN conjunct1, rule_format,
      OF sample_simps(2)]
  note T9 = store_flag_idempotent [where d = sampleDb and vid = "''v9''", THEN conjunct2, rule_format,
      OF sample_simps(4)]
  from T2 have a: "openStore sampleDb ''v2'' =
         (Inr (select_no_password (closedVendor\<lparr>isStoreOpen := True\<rparr>)),
          sampleDb\<lparr>vendorModel := (vendorModel sampleDb)(''v2'' \<mapsto> closedVendor\<lparr>isStoreOpen := True\<rparr>)\<rparr>)"
    by (elim conjE)
  from T2 have a': "openStore (snd (openStore sampleDb ''v2'')) ''v2'' = openStore sampleDb ''v2''"
    by (elim conjE)
  from T1 have b: "openStore sampleDb ''v1'' =
         (Inr (select_no_password (openVendor\<lparr>isStoreOpen := True\<rparr>)),
          sampleDb\<lparr>vendorModel := (vendorModel sampleDb)(''v1'' \<mapsto> openVendor\<lparr>isStoreOpen := True\<rparr>)\<rparr>)"
    by (elim conjE)
  from T1 have b': "closeStore sampleDb ''v1'' =
         (Inr (select_no_password (openVendor\<lparr>isStoreOpen := False\<rparr>)),
          sampleDb\<lparr>vendorModel := (vendorModel sampleDb)(''v1'' \<mapsto> openVendor\<lparr>isStoreOpen := False\<rparr>)\<rparr>)"
    by (elim conjE)
  from T9 have c: "openStore sampleDb ''v9'' = (Inl (NotFoundException ''Vendor not found''), sampleDb)"
    by (elim conjE)
  have 1: "isStoreOpen (projr (fst (openStore sampleDb ''v2'')))"
    by (simp add: a select_no_password_def)
  have 2: "isStoreOpen (projr (fst (openStore (snd (openStore sampleDb ''v2'')) ''v2'')))"
    unfolding a' by (rule 1)
  have 3: "isStoreOpen (projr (fst (openStore sampleDb ''v1'')))"
    by (simp add: b select_no_password_def)
  have 4: "\<not> isStoreOpen (projr (fst (closeStore sampleDb ''v1'')))"
    by (simp add: b' select_no_password_def)
  from 1 2 3 4 c show ?thesis by (intro conjI)
qed

section \<open>VendorService.updateWorkingHours\<close>

lemma findIndex_None: "findIndex P xs = None \<longleftrightarrow> (\<forall>x \<in> set xs. \<not> P x)"
  by (induction xs) auto

lemma findIndex_Some:
  "findIndex P xs = Some i \<Longrightarrow> i < length xs \<and> P (xs ! i) \<and> (\<forall>j < i. \<not> P (xs ! j))"
proof (induction xs arbitrary: i)
  case Nil
  then show ?case by simp
next
  case (Cons x xs)
  show ?case
  proof (cases "P x")
    case True
    with Cons.prems show ?thesis by simp
  next
    case False
    with Cons.prems obtain k where k: "findIndex P xs = Some k" "i = Suc k"
      by auto
    from Cons.IH [OF k(1)] False k(2) show ?thesis
      by (auto simp: less_Suc_eq_0_disj)
  qed
qed

lemma assignFields_fields:
  "workingHour.day (assignFields u h) = workingHour.day h"
  "workingHour.openingTime (assignFields u h) =
     (case workingHoursUpdate.openingTime u of
        None \<Rightarrow> workingHour.openingTime h
      | Some t \<Rightarrow> if t = [] then workingHour.openingTime h else t)"
  "workingHour.closingTime (assignFields u h) =
     (case workingHoursUpdate.closingTime u of
        None \<Rightarrow> workingHour.closingTime h
      | Some t \<Rightarrow> if t = [] then workingHour.closingTime h else t)"
  "workingHour.isActive (assignFields u h) =
     (case workingHoursUpdate.isActive u of
        None \<Rightarrow> workingHour.isActive h
      | Some b \<Rightarrow> b)"
  by (simp_all add: assignFields_def Let_def split: option.splits)

text \<open>
  Claim C8, as the code has it, for an existing vendor. If no entry has the requested
  day (letter case ignored), the call throws \<open>BadRequestException\<close> and the state is
  unchanged. Otherwise the first entry with that day is replaced by \<open>assignFields\<close> of
  it, every other entry stays, the vendor is saved with the new list and the list is
  returned. \<open>assignFields\<close> keeps the day; it writes \<open>openingTime\<close> and
  \<open>closingTime\<close> when the request has them non-empty and \<open>isActive\<close> when the
  request has it, and keeps the prior value otherwise.
\<close>
theorem updateWorkingHours_partial:
  assumes "vendorModel d vid = Some v"
  shows "((\<forall>h \<in> set (workingHours v). toLowerCase (workingHour.day h) \<noteq> toLowerCase (workingHoursUpdate.day u)) \<longrightarrow>
            updateWorkingHours d vid u
              = (Inl (BadRequestException (''Invalid day: '' @ workingHoursUpdate.day u)), d))
       \<and> ((\<exists>h \<in> set (workingHours v). toLowerCase (workingHour.day h) = toLowerCase (workingHoursUpdate.day u)) \<longrightarrow>
            (\<exists>i < length (workingHours v).
               toLowerCase (workingHour.day (workingHours v ! i)) = toLowerCase (workingHoursUpdate.day u)
               \<and> (\<forall>j < i. toLowerCase (workingHour.day (workingHours v ! j)) \<noteq> toLowerCase (workingHoursUpdate.day u))
               \<and> updateWorkingHours d vid u
                   = (Inr ((workingHours v)[i := assignFields u (workingHours v ! i)]),
                      d\<lparr>vendorModel := (vendorModel d)(vid \<mapsto>
                           v\<lparr>workingHours := (workingHours v)[i := assignFields u (workingHours v ! i)]\<rparr>)\<rparr>)))
       \<and> (\<forall>h. workingHour.day (assignFields u h) = workingHour.day h
            \<and> workingHour.openingTime (assignFields u h) =
                (case workingHoursUpdate.openingTime u of
                   None \<Rightarrow> workingHour.openingTime h
                 | Some t \<Rightarrow> if t = [] then workingHour.openingTime h else t)
            \<and> workingHour.closingTime (assignFields u h) =
                (case workingHoursUpdate.closingTime u of
                   None \<Rightarrow> workingHour.closingTime h
                 | Some t \<Rightarrow> if t = [] then workingHour.closingTime h else t)
            \<and> workingHour.isActive (assignFields u h) =
                (case workingHoursUpdate.isActive u of
                   None \<Rightarrow> workingHour.isActive h
                 | Some b \<Rightarrow> b))"
proof (intro conjI impI allI)
  let ?P = "\<lambda>h. toLowerCase (workingHour.day h) = toLowerCase (workingHoursUpdate.day u)"
  {
    assume "\<forall>h \<in> set (workingHours v). toLowerCase (workingHour.day h) \<noteq> toLowerCase (workingHoursUpdate.day u)"
    then have "findIndex ?P (workingHours v) = None"
      by (simp add: findIndex_None)
    then show "updateWorkingHours d vid u
              = (Inl (BadRequestException (''Invalid day: '' @ workingHoursUpdate.day u)), d)"
      using assms by (simp add: updateWorkingHours_def)
  }
  {
    assume "\<exists>h \<in> set (workingHours v). toLowerCase (workingHour.day h) = toLowerCase (workingHoursUpdate.day u)"
    then have "findIndex ?P (workingHours v) \<noteq> None"
      by (simp add: findIndex_None)
    then obtain i where i: "findIndex ?P (workingHours v) = Some i"
      by auto
    from findIndex_Some [OF i]
    have p: "i < length (workingHours v)" "?P (workingHours v ! i)" "\<forall>j < i. \<not> ?P (workingHours v ! j)"
      by simp_all
    have "updateWorkingHours d vid u
            = (Inr ((workingHours v)[i := assignFields u (workingHours v ! i)]),
               d\<lparr>vendorModel := (vendorModel d)(vid \<mapsto>
                    v\<lparr>workingHours := (workingHours v)[i := assignFields u (workingHours v ! i)]\<rparr>)\<rparr>)"
      using assms i by (simp add: updateWorkingHours_def Let_def)
    with p show "\<exists>i < length (workingHours v).
               toLowerCase (workingHour.day (workingHours v ! i)) = toLowerCase (workingHoursUpdate.day u)
               \<and> (\<forall>j < i. toLowerCase (workingHour.day (workingHours v ! j)) \<noteq> toLowerCase (workingHoursUpdate.day u))
               \<and> updateWorkingHours d vid u
                   = (Inr ((workingHours v)[i := assignFields u (workingHours v ! i)]),
                      d\<lparr>vendorModel := (vendorModel d)(vid \<mapsto>
                           v\<lparr>workingHours := (workingHours v)[i := assignFields u (workingHours v ! i)]\<rparr>)\<rparr>)"
      by blast
  }
qed (simp_all add: assignFields_fields)


lemma sampleHours_days:
  "workingHours openVendor = sampleHours"
  "toLowerCase ''Monday'' = ''monday''" "toLowerCase ''Tuesday'' = ''tuesday''"
  "toLowerCase ''TUESDAY'' = ''tuesday''" "toLowerCase ''monday'' = ''monday''"
  "toLowerCase ''Funday'' = ''funday''"
  by (simp_all add: openVendor_def toLowerCase_def lowerChar_def)

text \<open>
  Claim C8 says that every field present in the request is written. An \<open>openingTime\<close>
  that is present but empty is not: the guard \<open>if (update.openingTime)\<close> is false for
  the empty string, and Monday keeps its opening time \<open>09:00\<close>.
\<close>
theorem updateWorkingHours_empty_time_counterexample:
  "fst (updateWorkingHours sampleDb ''v1''
          \<lparr> workingHoursUpdate.day = ''monday'', workingHoursUpdate.openingTime = Some [],
            workingHoursUpdate.closingTime = None, workingHoursUpdate.isActive = None \<rparr>)
     = Inr sampleHours
   \<and> map workingHour.openingTime sampleHours = [''09:00'', ''10:00'']"
  by (simp add: updateWorkingHours_def sample_simps sampleHours_days Let_def)
     (simp add: sampleHours_def sampleHours_days assignFields_def Let_def)

theorem updateWorkingHours_partial_witness:
  "updateWorkingHours sampleDb ''v1''
      \<lparr> workingHoursUpdate.day = ''Funday'', workingHoursUpdate.openingTime = Some ''08:00'',
        workingHoursUpdate.closingTime = None, workingHoursUpdate.isActive = None \<rparr>
     = (Inl (BadRequestException ''Invalid day: Funday''), sampleDb)
   \<and> fst (updateWorkingHours sampleDb ''v1''
      \<lparr> workingHoursUpdate.day = ''TUESDAY'', workingHoursUpdate.openingTime = None,
        workingHoursUpdate.closingTime = Some ''20:00'', workingHoursUpdate.isActive = Some True \<rparr>)
     = Inr [\<lparr> day = ''Monday'', openingTime = ''09:00'', closingTime = ''17:00'', isActive = True \<rparr>,
            \<lparr> day = ''Tuesday'', openingTime = ''10:00'', closingTime = ''20:00'', isActive = True \<rparr>]"
proof -
  have v: "vendorModel sampleDb ''v1'' = Some openVendor"
    by (rule sample_simps(2))
  note A = updateWorkingHours_partial [OF v, where u =
      "\<lparr> workingHoursUpdate.day = ''Funday'', workingHoursUpdate.openingTime = Some ''08:00'',
        workingHoursUpdate.closingTime = None, workingHoursUpdate.isActive = None \<rparr>", THEN conjunct1]
  have a: "updateWorkingHours sampleDb ''v1''
      \<lparr> workingHoursUpdate.day = ''Funday'', workingHoursUpdate.openingTime = Some ''08:00'',
        workingHoursUpdate.closingTime = None, workingHoursUpdate.isActive = None \<rparr>
     = (Inl (BadRequestException ''Invalid day: Funday''), sampleDb)"
    using A by (simp add: sampleHours_days) (simp add: sampleHours_def sampleHours_days)
  note B = updateWorkingHours_partial [OF v, where u =
      "\<lparr> workingHoursUpdate.day = ''TUESDAY'', workingHoursUpdate.openingTime = None,
        workingHoursUpdate.closingTime = Some ''20:00'', workingHoursUpdate.isActive = Some True \<rparr>",
      THEN conjunct2, THEN conjunct1]
  have ex: "\<exists>h \<in> set (workingHours openVendor). toLowerCase (workingHour.day h) = toLowerCase ''TUESDAY''"
    by (simp add: sampleHours_days) (simp add: sampleHours_def sampleHours_days)
  from B ex obtain i where i: "i < length (workingHours openVendor)"
    "toLowerCase (workingHour.day (workingHours openVendor ! i)) = toLowerCase ''TUESDAY''"
    "fst (updateWorkingHours sampleDb ''v1''
      \<lparr> workingHoursUpdate.day = ''TUESDAY'', workingHoursUpdate.openingTime = None,
        workingHoursUpdate.closingTime = Some ''20:00'', workingHoursUpdate.isActive = Some True \<rparr>)
     = Inr ((workingHours openVendor)[i := assignFields
         \<lparr> workingHoursUpdate.day = ''TUESDAY'', workingHoursUpdate.openingTime = None,
           workingHoursUpdate.closingTime = Some ''20:00'', workingHoursUpdate.isActive = Some True \<rparr>
         (workingHours openVendor ! i)])"
    by auto
  from i(1,2) have "i = 1"
    by (cases i) (simp_all add: sampleHours_days, simp_all add: sampleHours_def sampleHours_days)
  with i(3) have b: "fst (updateWorkingHours sampleDb ''v1''
      \<lparr> workingHoursUpdate.day = ''TUESDAY'', workingHoursUpdate.openingTime = None,
        workingHoursUpdate.closingTime = Some ''20:00'', workingHoursUpdate.isActive = Some True \<rparr>)
     = Inr [\<lparr> day = ''Monday'', openingTime = ''09:00'', closingTime = ''17:00'', isActive = True \<rparr>,
            \<lparr> day = ''Tuesday'', openingTime = ''10:00'', closingTime = ''20:00'', isActive = True \<rparr>]"
    by (simp add: sampleHours_days) (simp add: sampleHours_def assignFields_def)
  from a b show ?thesis by (intro conjI)
qed

end
